theory Spec2Isabelle
  imports Main "HOL-Library.Word"
begin

section \<open>aezeedcheck: key derivation, address building and the report\<close>

text \<open>
  A shallow embedding of \<^verbatim>\<open>main.go\<close>. The four functions of the file
  (\<^verbatim>\<open>deriveFirstKey\<close>, \<^verbatim>\<open>deriveAccountKey\<close>, \<^verbatim>\<open>keyToP2wkhAddr\<close>,
  \<^verbatim>\<open>keyToNp2wkhAddr\<close>) and \<^verbatim>\<open>main\<close> are translated line by line. Everything they
  call lives in imported packages (hdkeychain, btcutil, txscript, aezeed), which are not
  part of the source file: the calls go through two records of operations, \<open>lib\<close> and
  \<open>aezeed\<close>, that the functions take as a parameter. A second layer gives these
  operations the behaviour the specification describes, over a record \<open>prims\<close> of
  cryptographic primitives. The path deriver is given a second time with the state of
  the library passed from call to call, for the properties that are about that state.
\<close>

subsection \<open>Data\<close>

type_synonym u8 = "8 word"
type_synonym u16 = "16 word"
type_synonym u32 = "32 word"
type_synonym bytes = "u8 list"

text \<open>
  A Go \<^verbatim>\<open>error\<close>. The first five constructors are the errors of the imported packages,
  named as in the specification's taxonomy (\<open>DecryptError\<close> is the failure of the
  cipher-seed recovery). \<open>Errorf p e\<close> is the value of
  \<^verbatim>\<open>fmt.Errorf(p + "%v", e)\<close>: a new error whose text is \<open>p\<close> followed by the text of
  \<open>e\<close>.
\<close>

datatype error =
    InvalidSeedLength
  | HardenedFromPublicOnly
  | InvalidTweak
  | EncodingError
  | DecryptError
  | Errorf string error

text \<open>
  The text of an error, as \<^verbatim>\<open>%v\<close> prints it. The message of an imported
  package's error is not in the source file; its name stands for it. The text of an
  \<^verbatim>\<open>Errorf\<close> value is the prefix followed by the text of the wrapped error.
\<close>

fun Error :: "error \<Rightarrow> string" where
  "Error InvalidSeedLength = ''InvalidSeedLength''"
| "Error HardenedFromPublicOnly = ''HardenedFromPublicOnly''"
| "Error InvalidTweak = ''InvalidTweak''"
| "Error EncodingError = ''EncodingError''"
| "Error DecryptError = ''DecryptError''"
| "Error (Errorf p e) = p @ Error e"

text \<open>A curve point in affine coordinates, as \<^verbatim>\<open>btcec.PublicKey\<close> holds it.\<close>

type_synonym point = "int \<times> int"
type_synonym PublicKey = point

text \<open>
  The extended key node of the specification's data model:
  \<^verbatim>\<open>{depth, parentFingerprint, childIndex, chainCode, keyMaterial}\<close> with
  \<^verbatim>\<open>KeyMaterial = Private(scalar) | Public(point)\<close>.
\<close>

datatype KeyMaterial = Private nat | Public point

record ExtendedKey =
  depth :: nat
  parentFingerprint :: bytes
  childIndex :: u32
  chainCode :: bytes
  keyMaterial :: KeyMaterial

text \<open>
  Network parameters (\<^verbatim>\<open>chaincfg.Params\<close>): the fields address encoding reads.
\<close>

record Params =
  Name :: string
  Bech32HRPSegwit :: string
  PubKeyHashAddrID :: u8
  ScriptHashAddrID :: u8

text \<open>
  Modelled from the spec: the network parameter sets of package chaincfg, which is not
  in the source file. The specification speaks of a network-specific, version-byte
  encoding; the values are those of the Bitcoin main and test networks.
\<close>

definition MainNetParams :: Params where
  "MainNetParams =
     \<lparr>Name = ''mainnet'', Bech32HRPSegwit = ''bc'', PubKeyHashAddrID = 0x00,
      ScriptHashAddrID = 0x05\<rparr>"

definition TestNet3Params :: Params where
  "TestNet3Params =
     \<lparr>Name = ''testnet3'', Bech32HRPSegwit = ''tb'', PubKeyHashAddrID = 0x6f,
      ScriptHashAddrID = 0xc4\<rparr>"

text \<open>
  The two address kinds the program builds (\<^verbatim>\<open>btcutil.AddressWitnessPubKeyHash\<close> and
  \<^verbatim>\<open>btcutil.AddressScriptHash\<close>): a witness program under a human-readable part, and
  a script hash under a version byte.
\<close>

datatype Address =
    AddressWitnessPubKeyHash string u8 bytes
  | AddressScriptHash bytes u8

text \<open>The result of the cipher-seed recovery (\<^verbatim>\<open>aezeed.CipherSeed\<close>).\<close>

record CipherSeed =
  InternalVersion :: u8
  Birthday :: u16
  Entropy :: bytes

type_synonym Time = int

subsection \<open>The imported operations\<close>

text \<open>
  The operations of hdkeychain, btcec, btcutil and txscript that \<^verbatim>\<open>main.go\<close> calls.
  A Go result \<^verbatim>\<open>(v, err)\<close> is a sum: \<open>Inl err\<close> or \<open>Inr v\<close>.
\<close>

record lib =
  NewMaster :: "bytes \<Rightarrow> Params \<Rightarrow> error + ExtendedKey"
  Child :: "ExtendedKey \<Rightarrow> u32 \<Rightarrow> error + ExtendedKey"
  ECPubKey :: "ExtendedKey \<Rightarrow> error + PublicKey"
  SerializeCompressed :: "PublicKey \<Rightarrow> bytes"
  Hash160 :: "bytes \<Rightarrow> bytes"
  NewAddressWitnessPubKeyHash :: "bytes \<Rightarrow> Params \<Rightarrow> error + Address"
  PayToAddrScript :: "Address \<Rightarrow> error + bytes"
  NewAddressScriptHash :: "bytes \<Rightarrow> Params \<Rightarrow> error + Address"
  EncodeAddress :: "Address \<Rightarrow> string"

text \<open>
  The cipher-seed recovery (package aezeed) and the rendering of its birthday
  (\<^verbatim>\<open>time.Time\<close> under \<^verbatim>\<open>%v\<close>).
\<close>

record aezeed =
  ToCipherSeed :: "string list \<Rightarrow> bytes \<Rightarrow> error + CipherSeed"
  BirthdayTime :: "CipherSeed \<Rightarrow> Time"
  TimeString :: "Time \<Rightarrow> string"

text \<open>
  Modelled from the spec: constants declared in the imported packages hdkeychain, keychain,
  waddrmgr and aezeed, which are not in the source file. \<open>HardenedKeyStart\<close> is the
  specification's \<open>2^31\<close>; the purposes are those of the three paths (the application
  purpose, BIP84 and the BIP49 equivalent); the coin type is Bitcoin's; a mnemonic has
  24 words.
\<close>

definition HardenedKeyStart :: u32 where
  "HardenedKeyStart = 0x80000000"

definition CoinTypeBitcoin :: u32 where
  "CoinTypeBitcoin = 0"

definition BIP0043Purpose :: u32 where
  "BIP0043Purpose = 1017"

definition KeyFamilyNodeKey :: u32 where
  "KeyFamilyNodeKey = 6"

definition KeyScopeBIP0084_Purpose :: u32 where
  "KeyScopeBIP0084_Purpose = 84"

definition KeyScopeBIP0049Plus_Purpose :: u32 where
  "KeyScopeBIP0049Plus_Purpose = 49"

definition NummnemonicWords :: nat where
  "NummnemonicWords = 24"

subsection \<open>The path deriver\<close>

text \<open>
  \<^verbatim>\<open>deriveAccountKey\<close>: three calls of \<^verbatim>\<open>Child\<close>, each at a \<^verbatim>\<open>uint32\<close> sum with
  \<^verbatim>\<open>HardenedKeyStart\<close> (the sum wraps around, as Go's does), each error wrapped by
  \<^verbatim>\<open>fmt.Errorf\<close>.
\<close>

definition deriveAccountKey :: "lib \<Rightarrow> ExtendedKey \<Rightarrow> u32 \<Rightarrow> u32 \<Rightarrow> error + ExtendedKey" where
  "deriveAccountKey L rootKey purpose keyFamily =
     (case Child L rootKey (purpose + HardenedKeyStart) of
        Inl err \<Rightarrow> Inl (Errorf ''unable to derive purpose key; '' err)
      | Inr purposeKey \<Rightarrow>
          (case Child L purposeKey (CoinTypeBitcoin + HardenedKeyStart) of
             Inl err \<Rightarrow> Inl (Errorf ''unable to generate coin type key: '' err)
           | Inr coinTypeKey \<Rightarrow>
               (case Child L coinTypeKey (keyFamily + HardenedKeyStart) of
                  Inl err \<Rightarrow> Inl (Errorf ''unable to derive account key: '' err)
                | Inr accountKey \<Rightarrow> Inr accountKey)))"

text \<open>
  \<^verbatim>\<open>deriveFirstKey\<close>: the account key, then \<^verbatim>\<open>Child(0)\<close> twice, then the public key
  of the leaf. Errors are returned as they are.
\<close>

definition deriveFirstKey :: "lib \<Rightarrow> ExtendedKey \<Rightarrow> u32 \<Rightarrow> u32 \<Rightarrow> error + PublicKey" where
  "deriveFirstKey L rootKey purpose keyFamily =
     (case deriveAccountKey L rootKey purpose keyFamily of
        Inl err \<Rightarrow> Inl err
      | Inr accountKey \<Rightarrow>
          (case Child L accountKey 0 of
             Inl err \<Rightarrow> Inl err
           | Inr externalBranch \<Rightarrow>
               (case Child L externalBranch 0 of
                  Inl err \<Rightarrow> Inl err
                | Inr firstChild \<Rightarrow> ECPubKey L firstChild)))"

subsection \<open>The address builder\<close>

definition keyToP2wkhAddr :: "lib \<Rightarrow> PublicKey \<Rightarrow> error + Address" where
  "keyToP2wkhAddr L key =
     (let pubKeyHash = Hash160 L (SerializeCompressed L key)
      in NewAddressWitnessPubKeyHash L pubKeyHash MainNetParams)"

definition keyToNp2wkhAddr :: "lib \<Rightarrow> PublicKey \<Rightarrow> error + Address" where
  "keyToNp2wkhAddr L key =
     (let pubKeyHash = Hash160 L (SerializeCompressed L key)
      in case NewAddressWitnessPubKeyHash L pubKeyHash MainNetParams of
           Inl err \<Rightarrow> Inl err
         | Inr witAddr \<Rightarrow>
             (case PayToAddrScript L witAddr of
                Inl err \<Rightarrow> Inl err
              | Inr witnessProgram \<Rightarrow> NewAddressScriptHash L witnessProgram MainNetParams))"

subsection \<open>Standard library\<close>

text \<open>
  \<^verbatim>\<open>strings.Split(s, " ")\<close>: the pieces between the spaces, an empty piece between two
  adjacent spaces and at either end. \<open>genSplit w s\<close> carries the piece read so far.
\<close>

fun genSplit :: "string \<Rightarrow> string \<Rightarrow> string list" where
  "genSplit w [] = [w]"
| "genSplit w (c # cs) =
     (if c = CHR '' '' then w # genSplit [] cs else genSplit (w @ [c]) cs)"

definition Split :: "string \<Rightarrow> string list" where
  "Split s = genSplit [] s"

text \<open>\<^verbatim>\<open>hex.EncodeToString\<close>: two digits of \<^verbatim>\<open>0123456789abcdef\<close> for each byte.\<close>

definition hextable :: string where
  "hextable = ''0123456789abcdef''"

definition EncodeToString :: "bytes \<Rightarrow> string" where
  "EncodeToString src =
     concat (map (\<lambda>v. [hextable ! (unat v div 16), hextable ! (unat v mod 16)]) src)"

text \<open>An unsigned integer under \<^verbatim>\<open>%v\<close>: its decimal digits.\<close>

fun showNat :: "nat \<Rightarrow> string" where
  "showNat n =
     (if n < 10 then [''0123456789'' ! n]
      else showNat (n div 10) @ [''0123456789'' ! (n mod 10)])"

declare showNat.simps [simp del]

definition newline :: string where
  "newline = [CHR 0x0A]"

text \<open>
  \<^verbatim>\<open>fmt.Println\<close>: the operands with a space between each two, then a newline.
\<close>

fun Println :: "string list \<Rightarrow> string" where
  "Println [] = newline"
| "Println [a] = a @ newline"
| "Println (a # b # rest) = a @ '' '' @ Println (b # rest)"

text \<open>\<^verbatim>\<open>[]byte(s)\<close>.\<close>

definition bytesOfString :: "string \<Rightarrow> bytes" where
  "bytesOfString s = map of_char s"

text \<open>
  \<^verbatim>\<open>flag.PrintDefaults\<close> for the two flags of the program, in the order of their names.
\<close>

definition PrintDefaults :: string where
  "PrintDefaults =
     ''  -mnemonic string'' @ newline @
     ''    '' @ [CHR 0x09] @ ''your aezeed mnemonic with each word separated by a new line'' @ newline @
     ''  -pass string'' @ newline @
     ''    '' @ [CHR 0x09] @ ''an optional password used to encrypt the aezeed pass phrase'' @ newline"

subsection \<open>The run\<close>

text \<open>
  What a run leaves behind: the writes to standard output in order (one per print
  call), the writes to standard error, and the exit status.
\<close>

record outcome =
  stdout :: "string list"
  stderr :: "string list"
  exit_code :: int

text \<open>
  \<^verbatim>\<open>log.Fatalf\<close>: the message goes to standard error and the process exits with
  status 1; what was printed before stays printed. (The logger's time stamp is left out.)
\<close>

definition Fatalf :: "string list \<Rightarrow> string \<Rightarrow> outcome" where
  "Fatalf out msg = \<lparr>stdout = out, stderr = [msg @ newline], exit_code = 1\<rparr>"

text \<open>
  Lines 152 to 179 of \<^verbatim>\<open>main\<close>: the three derivations and the two address encodings,
  in order, each failure ending the run with its own message. The (purpose, key family)
  pair of each path is an argument here; \<open>main\<close> passes the constants. The result holds
  the five local variables \<^verbatim>\<open>nodePub\<close>, \<^verbatim>\<open>firstP2wkhKey\<close>, \<^verbatim>\<open>firstSegwitAddr\<close>,
  \<^verbatim>\<open>firstNp2wkhKey\<close>, \<^verbatim>\<open>firstNestedSegwitAddr\<close>; \<open>Inl\<close> holds the message of the
  \<^verbatim>\<open>log.Fatalf\<close> that ended the run.
\<close>

definition main_derive ::
  "lib \<Rightarrow> ExtendedKey \<Rightarrow> u32 \<times> u32 \<Rightarrow> u32 \<times> u32 \<Rightarrow> u32 \<times> u32 \<Rightarrow>
     string + (PublicKey \<times> PublicKey \<times> Address \<times> PublicKey \<times> Address)" where
  "main_derive L rootKey nodePath p2wkhPath np2wkhPath =
     (case deriveFirstKey L rootKey (fst nodePath) (snd nodePath) of
        Inl err \<Rightarrow> Inl (''unable to derive node key: '' @ Error err)
      | Inr nodePub \<Rightarrow>
     (case deriveFirstKey L rootKey (fst p2wkhPath) (snd p2wkhPath) of
        Inl err \<Rightarrow> Inl (''unable to derive first segwit addr: '' @ Error err)
      | Inr firstP2wkhKey \<Rightarrow>
     (case keyToP2wkhAddr L firstP2wkhKey of
        Inl err \<Rightarrow> Inl (''unable to create p2wkh addr: '' @ Error err)
      | Inr firstSegwitAddr \<Rightarrow>
     (case deriveFirstKey L rootKey (fst np2wkhPath) (snd np2wkhPath) of
        Inl err \<Rightarrow> Inl (''unable to derive first nested segwit addr: '' @ Error err)
      | Inr firstNp2wkhKey \<Rightarrow>
     (case keyToNp2wkhAddr L firstNp2wkhKey of
        Inl err \<Rightarrow> Inl (''unable to create np2wkh addr: '' @ Error err)
      | Inr firstNestedSegwitAddr \<Rightarrow>
          Inr (nodePub, firstP2wkhKey, firstSegwitAddr, firstNp2wkhKey,
               firstNestedSegwitAddr))))))"

text \<open>The first print of \<^verbatim>\<open>main\<close> (line 140).\<close>

definition birthdayLine :: "aezeed \<Rightarrow> CipherSeed \<Rightarrow> string" where
  "birthdayLine A cipherSeed =
     ''Wallet Birthday: '' @ TimeString A (BirthdayTime A cipherSeed) @
     '', Internal Version: '' @ showNat (unat (InternalVersion cipherSeed)) @ newline"

text \<open>
  \<^verbatim>\<open>main\<close>, from the parsed flags \<^verbatim>\<open>mnemonic\<close> and \<^verbatim>\<open>aezeedPass\<close> on. The mnemonic
  array has \<open>NummnemonicWords\<close> entries, empty at first; \<^verbatim>\<open>copy\<close> fills it from the
  front. A nil password is the empty byte string.
\<close>

definition main :: "lib \<Rightarrow> aezeed \<Rightarrow> string \<Rightarrow> string \<Rightarrow> outcome" where
  "main L A mnemonic aezeedPass =
     (if mnemonic = [] then \<lparr>stdout = [], stderr = [PrintDefaults], exit_code = 0\<rparr>
      else
        (let mnemonicPhrase = Split mnemonic
         in if length mnemonicPhrase \<noteq> NummnemonicWords
            then Fatalf [] (''expected '' @ showNat NummnemonicWords @
                   '' words, instead got '' @ showNat (length mnemonicPhrase))
            else
              (let aezeedPhrase =
                     take NummnemonicWords
                       (mnemonicPhrase @ replicate (NummnemonicWords - length mnemonicPhrase) []);
                   password = (if aezeedPass \<noteq> [] then bytesOfString aezeedPass else [])
               in (case ToCipherSeed A aezeedPhrase password of
                     Inl err \<Rightarrow> Fatalf [] (''unable to decrypt cipher seed: '' @ Error err)
                   | Inr cipherSeed \<Rightarrow>
                       (let out = [birthdayLine A cipherSeed];
                            entropy = Entropy cipherSeed
                        in (case NewMaster L entropy MainNetParams of
                              Inl err \<Rightarrow>
                                Fatalf out (''unable to make HD priv root: '' @ Error err)
                            | Inr rootKey \<Rightarrow>
                                (case main_derive L rootKey (BIP0043Purpose, KeyFamilyNodeKey)
                                        (KeyScopeBIP0084_Purpose, 0)
                                        (KeyScopeBIP0049Plus_Purpose, 0) of
                                   Inl msg \<Rightarrow> Fatalf out msg
                                 | Inr (nodePub, firstP2wkhKey, firstSegwitAddr, firstNp2wkhKey,
                                        firstNestedSegwitAddr) \<Rightarrow>
                                     \<lparr>stdout = out @
                                        [Println [''Node pub key: '',
                                            EncodeToString (SerializeCompressed L nodePub)],
                                         Println [''First p2wkh address: '',
                                            EncodeAddress L firstSegwitAddr],
                                         Println [''First n2pwkh address'',
                                            EncodeAddress L firstNestedSegwitAddr]],
                                      stderr = [], exit_code = 0\<rparr>)))))))"

subsection \<open>The path deriver, with the state of the library\<close>

text \<open>
  In the program a key is a pointer, \<^verbatim>\<open>*hdkeychain.ExtendedKey\<close>: the three calls of
  \<^verbatim>\<open>deriveFirstKey\<close> in \<^verbatim>\<open>main\<close> share the pointer to the root key, and every
  \<^verbatim>\<open>Child\<close> and \<^verbatim>\<open>ECPubKey\<close> is a call into a package that owns the objects behind
  the pointers and may keep state of its own. Here that state is explicit. A key is a
  reference, and an operation takes the state of the library and returns, next to its
  result, the state it leaves. The type \<open>'s\<close> of the state is left open. The public
  key that \<^verbatim>\<open>ECPubKey\<close> returns is carried as its value.
\<close>

type_synonym ref = nat

record 's libS =
  ChildS :: "ref \<Rightarrow> u32 \<Rightarrow> 's \<Rightarrow> (error + ref) \<times> 's"
  ECPubKeyS :: "ref \<Rightarrow> 's \<Rightarrow> (error + PublicKey) \<times> 's"

text \<open>
  \<^verbatim>\<open>deriveAccountKey\<close> and \<^verbatim>\<open>deriveFirstKey\<close> as above, each call of the library made
  in the state that the call before it left.
\<close>

definition deriveAccountKeyS ::
  "'s libS \<Rightarrow> ref \<Rightarrow> u32 \<Rightarrow> u32 \<Rightarrow> 's \<Rightarrow> (error + ref) \<times> 's" where
  "deriveAccountKeyS L rootKey purpose keyFamily s =
     (case ChildS L rootKey (purpose + HardenedKeyStart) s of
        (Inl err, s1) \<Rightarrow> (Inl (Errorf ''unable to derive purpose key; '' err), s1)
      | (Inr purposeKey, s1) \<Rightarrow>
          (case ChildS L purposeKey (CoinTypeBitcoin + HardenedKeyStart) s1 of
             (Inl err, s2) \<Rightarrow> (Inl (Errorf ''unable to generate coin type key: '' err), s2)
           | (Inr coinTypeKey, s2) \<Rightarrow>
               (case ChildS L coinTypeKey (keyFamily + HardenedKeyStart) s2 of
                  (Inl err, s3) \<Rightarrow> (Inl (Errorf ''unable to derive account key: '' err), s3)
                | (Inr accountKey, s3) \<Rightarrow> (Inr accountKey, s3))))"

definition deriveFirstKeyS ::
  "'s libS \<Rightarrow> ref \<Rightarrow> u32 \<Rightarrow> u32 \<Rightarrow> 's \<Rightarrow> (error + PublicKey) \<times> 's" where
  "deriveFirstKeyS L rootKey purpose keyFamily s =
     (case deriveAccountKeyS L rootKey purpose keyFamily s of
        (Inl err, s1) \<Rightarrow> (Inl err, s1)
      | (Inr accountKey, s1) \<Rightarrow>
          (case ChildS L accountKey 0 s1 of
             (Inl err, s2) \<Rightarrow> (Inl err, s2)
           | (Inr externalBranch, s2) \<Rightarrow>
               (case ChildS L externalBranch 0 s2 of
                  (Inl err, s3) \<Rightarrow> (Inl err, s3)
                | (Inr firstChild, s3) \<Rightarrow> ECPubKeyS L firstChild s3)))"

text \<open>
  Lines 152 to 179 of \<^verbatim>\<open>main\<close> in the same way: the second derivation starts in the
  state that the first one left, and the third in the state that the second one left.
  The address builder takes a public key and handles byte strings and addresses, no
  key reference; its operations are those of \<open>L\<close>. The (purpose, key family) pair
  of each path is an argument, as in \<open>main_derive\<close>. The state is returned with the
  result.
\<close>

definition main_deriveS ::
  "'s libS \<Rightarrow> lib \<Rightarrow> ref \<Rightarrow> u32 \<times> u32 \<Rightarrow> u32 \<times> u32 \<Rightarrow> u32 \<times> u32 \<Rightarrow> 's \<Rightarrow>
     (string + (PublicKey \<times> PublicKey \<times> Address \<times> PublicKey \<times> Address)) \<times> 's" where
  "main_deriveS LS L rootKey nodePath p2wkhPath np2wkhPath s =
     (case deriveFirstKeyS LS rootKey (fst nodePath) (snd nodePath) s of
        (Inl err, s1) \<Rightarrow> (Inl (''unable to derive node key: '' @ Error err), s1)
      | (Inr nodePub, s1) \<Rightarrow>
     (case deriveFirstKeyS LS rootKey (fst p2wkhPath) (snd p2wkhPath) s1 of
        (Inl err, s2) \<Rightarrow> (Inl (''unable to derive first segwit addr: '' @ Error err), s2)
      | (Inr firstP2wkhKey, s2) \<Rightarrow>
     (case keyToP2wkhAddr L firstP2wkhKey of
        Inl err \<Rightarrow> (Inl (''unable to create p2wkh addr: '' @ Error err), s2)
      | Inr firstSegwitAddr \<Rightarrow>
     (case deriveFirstKeyS LS rootKey (fst np2wkhPath) (snd np2wkhPath) s2 of
        (Inl err, s3) \<Rightarrow>
          (Inl (''unable to derive first nested segwit addr: '' @ Error err), s3)
      | (Inr firstNp2wkhKey, s3) \<Rightarrow>
     (case keyToNp2wkhAddr L firstNp2wkhKey of
        Inl err \<Rightarrow> (Inl (''unable to create np2wkh addr: '' @ Error err), s3)
      | Inr firstNestedSegwitAddr \<Rightarrow>
          (Inr (nodePub, firstP2wkhKey, firstSegwitAddr, firstNp2wkhKey,
                firstNestedSegwitAddr), s3))))))"

subsection \<open>The imported operations, as the specification describes them\<close>

text \<open>
  The primitives the specification assumes: HMAC-SHA512 (key, then message), the order
  of the curve, scalar multiplication of the base point, point addition, the compressed
  serialization of a point, hash160, and the two textual encodings.
\<close>

record prims =
  hmacSHA512 :: "bytes \<Rightarrow> bytes \<Rightarrow> bytes"
  curveOrder :: nat
  scalarBaseMult :: "nat \<Rightarrow> point"
  pointAdd :: "point \<Rightarrow> point \<Rightarrow> point"
  serializePoint :: "point \<Rightarrow> bytes"
  ripemd160sha256 :: "bytes \<Rightarrow> bytes"
  segwitEncode :: "string \<Rightarrow> u8 \<Rightarrow> bytes \<Rightarrow> string"
  base58CheckEncode :: "bytes \<Rightarrow> u8 \<Rightarrow> string"

text \<open>Big-endian bytes of a number, and back.\<close>

fun be_bytes :: "nat \<Rightarrow> nat \<Rightarrow> bytes" where
  "be_bytes 0 v = []"
| "be_bytes (Suc n) v = be_bytes n (v div 256) @ [of_nat (v mod 256)]"

definition os2ip :: "bytes \<Rightarrow> nat" where
  "os2ip bs = foldl (\<lambda>acc b. acc * 256 + unat b) 0 bs"

text \<open>
  Modelled from the spec: \<^verbatim>\<open>deriveChild(parent, index, hardened)\<close> of section 4.1, the
  child derivation of package hdkeychain, which is not in the source file. The true
  index is \<open>index + 2^31\<close> when hardened; a hardened derivation from a public point fails
  with \<open>HardenedFromPublicOnly\<close>; the HMAC is keyed by the serialized key material
  followed by the big-endian true index and taken over the parent's chain code; its
  first half is the tweak, its second half the child's chain code; a tweak at or above
  the curve order, or a zero child scalar, fails with \<open>InvalidTweak\<close>.
\<close>

definition deriveChild :: "prims \<Rightarrow> ExtendedKey \<Rightarrow> u32 \<Rightarrow> bool \<Rightarrow> error + ExtendedKey" where
  "deriveChild P parent index hardened =
     (let trueIndex = (if hardened then index + 0x80000000 else index)
      in case keyMaterial parent of
           Public pt \<Rightarrow>
             if hardened then Inl HardenedFromPublicOnly
             else
               (let I = hmacSHA512 P (serializePoint P pt @ be_bytes 4 (unat trueIndex))
                          (chainCode parent);
                    tweak = os2ip (take 32 I)
                in if curveOrder P \<le> tweak then Inl InvalidTweak
                   else Inr \<lparr>depth = depth parent + 1,
                          parentFingerprint = take 4 (ripemd160sha256 P (serializePoint P pt)),
                          childIndex = trueIndex,
                          chainCode = drop 32 I,
                          keyMaterial = Public (pointAdd P (scalarBaseMult P tweak) pt)\<rparr>)
         | Private k \<Rightarrow>
             (let pub = scalarBaseMult P k;
                  ser = (if hardened then 0 # be_bytes 32 k else serializePoint P pub);
                  I = hmacSHA512 P (ser @ be_bytes 4 (unat trueIndex)) (chainCode parent);
                  tweak = os2ip (take 32 I);
                  child = (tweak + k) mod curveOrder P
              in if curveOrder P \<le> tweak \<or> child = 0 then Inl InvalidTweak
                 else Inr \<lparr>depth = depth parent + 1,
                        parentFingerprint = take 4 (ripemd160sha256 P (serializePoint P pub)),
                        childIndex = trueIndex,
                        chainCode = drop 32 I,
                        keyMaterial = Private child\<rparr>))"

text \<open>
  Modelled from the spec: \<^verbatim>\<open>ExtendedKey.Child(i)\<close> of hdkeychain takes the true index;
  it is hardened from \<open>2^31\<close> on.
\<close>

definition Child_spec :: "prims \<Rightarrow> ExtendedKey \<Rightarrow> u32 \<Rightarrow> error + ExtendedKey" where
  "Child_spec P parent i =
     (if HardenedKeyStart \<le> i then deriveChild P parent (i - HardenedKeyStart) True
      else deriveChild P parent i False)"

text \<open>
  Modelled from the spec: \<^verbatim>\<open>hdkeychain.NewMaster\<close>, which is not in the source file.
  It fails with \<open>InvalidSeedLength\<close> if the entropy is not the expected fixed size of 16
  bytes; otherwise the standard seed-to-master derivation gives a private node at depth 0.
\<close>

definition NewMaster_spec :: "prims \<Rightarrow> bytes \<Rightarrow> Params \<Rightarrow> error + ExtendedKey" where
  "NewMaster_spec P seed net =
     (if length seed \<noteq> 16 then Inl InvalidSeedLength
      else
        (let I = hmacSHA512 P (map of_char ''Bitcoin seed'') seed
         in Inr \<lparr>depth = 0, parentFingerprint = [0, 0, 0, 0], childIndex = 0,
                chainCode = drop 32 I, keyMaterial = Private (os2ip (take 32 I))\<rparr>))"

text \<open>
  Modelled from the spec: \<^verbatim>\<open>ExtendedKey.ECPubKey\<close> of hdkeychain. The public key is
  derived from private material, or carried directly by a public node.
\<close>

definition ECPubKey_spec :: "prims \<Rightarrow> ExtendedKey \<Rightarrow> error + PublicKey" where
  "ECPubKey_spec P k =
     (case keyMaterial k of
        Private s \<Rightarrow> Inr (scalarBaseMult P s)
      | Public pt \<Rightarrow> Inr pt)"

text \<open>
  Modelled from the spec: \<^verbatim>\<open>btcutil.NewAddressWitnessPubKeyHash\<close>, which is not in the
  source file (section 4.3). The native witness address wraps a 20-byte hash in a
  witness-version-0 program under the network's human-readable part, and fails on any
  other length.
\<close>

definition NewAddressWitnessPubKeyHash_spec :: "bytes \<Rightarrow> Params \<Rightarrow> error + Address" where
  "NewAddressWitnessPubKeyHash_spec witnessProg net =
     (if length witnessProg \<noteq> 20 then Inl EncodingError
      else Inr (AddressWitnessPubKeyHash (Bech32HRPSegwit net) 0 witnessProg))"

text \<open>
  Modelled from the spec: \<^verbatim>\<open>txscript.PayToAddrScript\<close>, which is not in the source
  file. The script of a witness address is its version followed by a push of its
  program (\<open>0x00 0x14\<close> and the 20 bytes, for version 0); the script of a script-hash
  address is the usual hash comparison.
\<close>

definition PayToAddrScript_spec :: "Address \<Rightarrow> error + bytes" where
  "PayToAddrScript_spec addr =
     (case addr of
        AddressWitnessPubKeyHash hrp version prog \<Rightarrow>
          Inr ([version, of_nat (length prog)] @ prog)
      | AddressScriptHash h netID \<Rightarrow>
          Inr ([0xa9, of_nat (length h)] @ h @ [0x87]))"

text \<open>
  Modelled from the spec: \<^verbatim>\<open>btcutil.NewAddressScriptHash\<close>, which is not in the source
  file (section 4.3). The script is hashed with hash160, and the 20-byte result is held
  under the network's script-hash version byte; any other hash length is an encoding
  error.
\<close>

definition NewAddressScriptHash_spec :: "prims \<Rightarrow> bytes \<Rightarrow> Params \<Rightarrow> error + Address" where
  "NewAddressScriptHash_spec P serializedScript net =
     (let scriptHash = ripemd160sha256 P serializedScript
      in if length scriptHash \<noteq> 20 then Inl EncodingError
         else Inr (AddressScriptHash scriptHash (ScriptHashAddrID net)))"

text \<open>
  Modelled from the spec: \<^verbatim>\<open>Address.EncodeAddress\<close> of btcutil, which is not in the
  source file. A witness address is rendered in the native witness encoding, a
  script-hash address in the legacy encoding (version byte, payload, checksum).
\<close>

definition EncodeAddress_spec :: "prims \<Rightarrow> Address \<Rightarrow> string" where
  "EncodeAddress_spec P addr =
     (case addr of
        AddressWitnessPubKeyHash hrp version prog \<Rightarrow> segwitEncode P hrp version prog
      | AddressScriptHash h netID \<Rightarrow> base58CheckEncode P h netID)"

text \<open>
  Modelled from the spec: \<^verbatim>\<open>Address.IsForNet\<close> of btcutil, which is not in the source
  file. An address is of a network when it carries the network's prefix.
\<close>

definition IsForNet :: "Address \<Rightarrow> Params \<Rightarrow> bool" where
  "IsForNet addr net =
     (case addr of
        AddressWitnessPubKeyHash hrp version prog \<Rightarrow> hrp = Bech32HRPSegwit net
      | AddressScriptHash h netID \<Rightarrow> netID = ScriptHashAddrID net)"

text \<open>
  Modelled from the spec: the imported operations together, over a record of primitives.
  \<^verbatim>\<open>SerializeCompressed\<close> and \<^verbatim>\<open>Hash160\<close> are the primitives themselves.
\<close>

definition specLib :: "prims \<Rightarrow> lib" where
  "specLib P =
     \<lparr>NewMaster = NewMaster_spec P,
      Child = Child_spec P,
      ECPubKey = ECPubKey_spec P,
      SerializeCompressed = serializePoint P,
      Hash160 = ripemd160sha256 P,
      NewAddressWitnessPubKeyHash = NewAddressWitnessPubKeyHash_spec,
      PayToAddrScript = PayToAddrScript_spec,
      NewAddressScriptHash = NewAddressScriptHash_spec P,
      EncodeAddress = EncodeAddress_spec P\<rparr>"

subsection \<open>Notions used to state the properties\<close>

text \<open>
  Modelled from the spec: an index is hardened from \<open>2^31\<close> on (the test of
  \<^verbatim>\<open>ExtendedKey.Child\<close>, package hdkeychain).
\<close>

definition hardenedIndex :: "u32 \<Rightarrow> bool" where
  "hardenedIndex i \<longleftrightarrow> HardenedKeyStart \<le> i"

text \<open>
  Modelled from the spec: a derivation path is an ordered sequence of indices; walking
  it derives child after child from the starting node, and the first failure ends the
  walk.
\<close>

fun walkPath :: "lib \<Rightarrow> ExtendedKey \<Rightarrow> u32 list \<Rightarrow> error + ExtendedKey" where
  "walkPath L k [] = Inr k"
| "walkPath L k (i # path) =
     (case Child L k i of Inl err \<Rightarrow> Inl err | Inr child \<Rightarrow> walkPath L child path)"

text \<open>
  Two libraries that differ at most in what their network-taking operations do away
  from the main network.
\<close>

definition sameOnMainNet :: "lib \<Rightarrow> lib \<Rightarrow> bool" where
  "sameOnMainNet L L' \<longleftrightarrow>
     Child L = Child L' \<and> ECPubKey L = ECPubKey L' \<and>
     SerializeCompressed L = SerializeCompressed L' \<and> Hash160 L = Hash160 L' \<and>
     PayToAddrScript L = PayToAddrScript L' \<and> EncodeAddress L = EncodeAddress L' \<and>
     (\<forall>seed. NewMaster L seed MainNetParams = NewMaster L' seed MainNetParams) \<and>
     (\<forall>h. NewAddressWitnessPubKeyHash L h MainNetParams =
          NewAddressWitnessPubKeyHash L' h MainNetParams) \<and>
     (\<forall>s. NewAddressScriptHash L s MainNetParams = NewAddressScriptHash L' s MainNetParams)"

text \<open>The address constructors of a library build addresses of the network they are given.\<close>

definition honoursNet :: "lib \<Rightarrow> bool" where
  "honoursNet L \<longleftrightarrow>
     (\<forall>h net a. NewAddressWitnessPubKeyHash L h net = Inr a \<longrightarrow> IsForNet a net) \<and>
     (\<forall>s net a. NewAddressScriptHash L s net = Inr a \<longrightarrow> IsForNet a net)"

text \<open>
  What a library with state owes the program. \<open>view s k\<close> is the key held, in the
  state \<open>s\<close>, by the object behind the reference \<open>k\<close>, if there is one. A step from
  \<open>s\<close> to \<open>s'\<close> keeps the keys when every reference that holds a key in \<open>s\<close> holds the
  same key in \<open>s'\<close>; whatever else the state holds may change.
\<close>

definition keepsKeys :: "('s \<Rightarrow> ref \<Rightarrow> ExtendedKey option) \<Rightarrow> 's \<Rightarrow> 's \<Rightarrow> bool" where
  "keepsKeys view s s' \<longleftrightarrow> (\<forall>k key. view s k = Some key \<longrightarrow> view s' k = Some key)"

text \<open>
  A result of the library with state, read in the state \<open>s\<close>, against a result over
  key values: the same error, or a reference that holds the key.
\<close>

definition sameResult ::
  "('s \<Rightarrow> ref \<Rightarrow> ExtendedKey option) \<Rightarrow> 's \<Rightarrow> error + ref \<Rightarrow> error + ExtendedKey \<Rightarrow> bool" where
  "sameResult view s r r' \<longleftrightarrow>
     (case r of
        Inl err \<Rightarrow> r' = Inl err
      | Inr k \<Rightarrow> (case view s k of None \<Rightarrow> False | Some key \<Rightarrow> r' = Inr key))"

text \<open>
  The library with state \<open>LS\<close> implements the operations \<open>Child\<close> and \<open>ECPubKey\<close> of
  \<open>L\<close>: called on a reference that holds a key, in any state, an operation keeps the
  keys, and its result is that of \<open>L\<close> on the key held. Nothing is asked of the
  references returned, of the rest of the state, or of calls on other references.
\<close>

definition implements :: "'s libS \<Rightarrow> lib \<Rightarrow> ('s \<Rightarrow> ref \<Rightarrow> ExtendedKey option) \<Rightarrow> bool" where
  "implements LS L view \<longleftrightarrow>
     (\<forall>s k key i. view s k = Some key \<longrightarrow>
        keepsKeys view s (snd (ChildS LS k i s)) \<and>
        sameResult view (snd (ChildS LS k i s)) (fst (ChildS LS k i s)) (Child L key i)) \<and>
     (\<forall>s k key. view s k = Some key \<longrightarrow>
        keepsKeys view s (snd (ECPubKeyS LS k s)) \<and>
        fst (ECPubKeyS LS k s) = ECPubKey L key)"

subsection \<open>A small instance\<close>

text \<open>
  Stand-ins for the primitives, used to run the definitions at concrete inputs: the
  integers under addition for the curve group (with a small order), the first 20 bytes
  of the reversed input for hash160, an HMAC whose tweak is read off the last byte of its
  key (the low byte of the index, in a child derivation), and hexadecimal text for the
  two encodings. No general theorem below depends on them.
\<close>

definition toyPrims :: prims where
  "toyPrims =
     \<lparr>hmacSHA512 = (\<lambda>key msg. replicate 31 0 @ [of_nat (unat (last key) mod 64 + 1)] @
                       take 32 (msg @ replicate 32 0x11)),
      curveOrder = 65521,
      scalarBaseMult = (\<lambda>k. (int k, 0)),
      pointAdd = (\<lambda>a b. (fst a + fst b, snd a + snd b)),
      serializePoint = (\<lambda>pt. (if even (snd pt) then 2 else 3) # be_bytes 32 (nat (fst pt))),
      ripemd160sha256 = (\<lambda>bs. take 20 (rev bs @ replicate 20 0)),
      segwitEncode = (\<lambda>hrp version prog. hrp @ ''1'' @ EncodeToString (version # prog)),
      base58CheckEncode = (\<lambda>h netID. EncodeToString (netID # h))\<rparr>"

text \<open>
  The same on a group of order 50: the master scalar is in range, and the tweak of the
  first derivation on the path of the node key is not, so that this derivation fails
  with \<open>InvalidTweak\<close>.
\<close>

definition badTweakPrims :: prims where
  "badTweakPrims = toyPrims\<lparr>curveOrder := 50\<rparr>"

text \<open>A cipher-seed recovery that accepts every mnemonic and returns 16 zero bytes.\<close>

definition toyCipherSeed :: CipherSeed where
  "toyCipherSeed = \<lparr>InternalVersion = 0, Birthday = 3723, Entropy = replicate 16 0\<rparr>"

definition toyAezeed :: aezeed where
  "toyAezeed =
     \<lparr>ToCipherSeed = (\<lambda>words password. Inr toyCipherSeed),
      BirthdayTime = (\<lambda>cs. 1231006505 + 86400 * uint (Birthday cs)),
      TimeString = (\<lambda>t. showNat (nat t))\<rparr>"

definition toyMnemonic :: string where
  "toyMnemonic = ''a b c d e f g h i j k l m n o p q r s t u v w x''"

text \<open>A node that carries only a public point.\<close>

definition publicRoot :: ExtendedKey where
  "publicRoot =
     \<lparr>depth = 0, parentFingerprint = [0, 0, 0, 0], childIndex = 0,
      chainCode = replicate 32 1, keyMaterial = Public (5, 0)\<rparr>"

text \<open>The master node of the stand-in primitives for 16 zero bytes of entropy.\<close>

definition toyMaster :: ExtendedKey where
  "toyMaster =
     \<lparr>depth = 0, parentFingerprint = [0, 0, 0, 0], childIndex = 0,
      chainCode = replicate 16 0 @ replicate 16 0x11, keyMaterial = Private 37\<rparr>"

text \<open>
  The stand-in library, changed to fail on every network but the main one.
\<close>

definition mainNetOnlyLib :: lib where
  "mainNetOnlyLib =
     (specLib toyPrims)
       \<lparr>NewMaster := (\<lambda>seed net.
          if net = MainNetParams then NewMaster_spec toyPrims seed net
          else Inl InvalidSeedLength),
        NewAddressWitnessPubKeyHash := (\<lambda>h net.
          if net = MainNetParams then NewAddressWitnessPubKeyHash_spec h net
          else Inl EncodingError),
        NewAddressScriptHash := (\<lambda>s net.
          if net = MainNetParams then NewAddressScriptHash_spec toyPrims s net
          else Inl EncodingError)\<rparr>"

text \<open>
  A library with state over the stand-in operations: the key objects in the order of
  their creation, a reference being a position in that order, and the number of calls
  answered so far. A derived key is a new object. A call on a reference without an
  object is answered with an error.
\<close>

record toyState =
  objects :: "ExtendedKey list"
  calls :: nat

definition toyView :: "toyState \<Rightarrow> ref \<Rightarrow> ExtendedKey option" where
  "toyView s k = (if k < length (objects s) then Some (objects s ! k) else None)"

definition toyLibS :: "toyState libS" where
  "toyLibS =
     \<lparr>ChildS = (\<lambda>k i s.
        case toyView s k of
          None \<Rightarrow> (Inl InvalidTweak, s)
        | Some key \<Rightarrow>
            (case Child (specLib toyPrims) key i of
               Inl err \<Rightarrow> (Inl err, s\<lparr>calls := calls s + 1\<rparr>)
             | Inr child \<Rightarrow>
                 (Inr (length (objects s)),
                  s\<lparr>objects := objects s @ [child], calls := calls s + 1\<rparr>))),
      ECPubKeyS = (\<lambda>k s.
        case toyView s k of
          None \<Rightarrow> (Inl InvalidTweak, s)
        | Some key \<Rightarrow> (ECPubKey (specLib toyPrims) key, s\<lparr>calls := calls s + 1\<rparr>))\<rparr>"

definition toyState0 :: toyState where
  "toyState0 = \<lparr>objects = [toyMaster], calls = 0\<rparr>"

section \<open>Properties\<close>

subsection \<open>Auxiliary facts\<close>

lemma deriveAccountKey_Inr_iff:
  "deriveAccountKey L r p f = Inr k \<longleftrightarrow>
     (\<exists>k1 k2. Child L r (p + HardenedKeyStart) = Inr k1 \<and>
        Child L k1 (CoinTypeBitcoin + HardenedKeyStart) = Inr k2 \<and>
        Child L k2 (f + HardenedKeyStart) = Inr k)"
  by (auto simp: deriveAccountKey_def split: sum.splits)

lemma deriveFirstKey_Inr_iff:
  "deriveFirstKey L r p f = Inr pk \<longleftrightarrow>
     (\<exists>acct branch leaf. deriveAccountKey L r p f = Inr acct \<and> Child L acct 0 = Inr branch \<and>
        Child L branch 0 = Inr leaf \<and> ECPubKey L leaf = Inr pk)"
  by (auto simp: deriveFirstKey_def split: sum.splits)

lemma unat_HardenedKeyStart: "unat HardenedKeyStart = 2 ^ 31"
  by (simp add: HardenedKeyStart_def)

lemma unat_add_hardened:
  assumes "i < HardenedKeyStart"
  shows "unat (i + HardenedKeyStart) = 2 ^ 31 + unat i"
proof -
  have "unat i < 2 ^ 31"
    using assms by (simp add: word_less_nat_alt unat_HardenedKeyStart)
  then have "unat i + unat HardenedKeyStart < 2 ^ LENGTH(32)"
    by (simp add: unat_HardenedKeyStart)
  then have "unat (i + HardenedKeyStart) = unat i + unat HardenedKeyStart"
    by (rule unat_add_lem [THEN iffD1])
  then show ?thesis
    by (simp add: unat_HardenedKeyStart)
qed

lemma hardened_add:
  assumes "i < HardenedKeyStart"
  shows "hardenedIndex (i + HardenedKeyStart)"
  using unat_add_hardened [OF assms]
  by (simp add: hardenedIndex_def word_le_nat_alt unat_HardenedKeyStart)

lemma not_hardened_zero: "\<not> hardenedIndex 0"
  by (simp add: hardenedIndex_def HardenedKeyStart_def)

lemma CoinType_less: "CoinTypeBitcoin < HardenedKeyStart"
  by (simp add: CoinTypeBitcoin_def HardenedKeyStart_def)

lemma walkPath3:
  "walkPath L r [a, b, c] = Inr k \<longleftrightarrow>
     (\<exists>k1 k2. Child L r a = Inr k1 \<and> Child L k1 b = Inr k2 \<and> Child L k2 c = Inr k)"
  by (auto split: sum.splits)

lemma length_be_bytes [simp]: "length (be_bytes n v) = n"
  by (induction n arbitrary: v) auto

lemma os2ip_zeros [simp]: "os2ip (replicate n 0 @ bs) = os2ip bs"
  by (induction n) (auto simp: os2ip_def)

lemma os2ip_single [simp]: "os2ip [b] = unat b"
  by (simp add: os2ip_def)

lemma be_bytes_zero: "be_bytes n 0 = replicate n 0"
  by (induction n) (simp_all add: replicate_append_same)

lemma be_bytes_small: "v < 256 \<Longrightarrow> be_bytes (Suc n) v = replicate n 0 @ [of_nat v]"
  by (simp add: be_bytes_zero)

lemma showNat_digit: "n < 10 \<Longrightarrow> showNat n = [''0123456789'' ! n]"
  by (simp add: showNat.simps)

lemma showNat_step:
  "10 \<le> n \<Longrightarrow> showNat n = showNat (n div 10) @ [''0123456789'' ! (n mod 10)]"
  by (subst showNat.simps) simp

lemma showNat_NummnemonicWords: "showNat NummnemonicWords = ''24''"
  by (simp add: NummnemonicWords_def showNat_digit showNat_step)

lemma hextable_nth: "n < 16 \<Longrightarrow> hextable ! n \<in> set hextable"
  by (rule nth_mem) (simp add: hextable_def)

lemma EncodeToString_lowercase_hex: "set (EncodeToString src) \<subseteq> set ''0123456789abcdef''"
proof -
  have "hextable ! (unat v div 16) \<in> set hextable \<and>
      hextable ! (unat v mod 16) \<in> set hextable" for v :: u8
  proof -
    have "unat v < 256"
      using unsigned_less [of v] by simp
    then have "unat v div 16 < 16" and "unat v mod 16 < 16"
      by simp_all
    then show ?thesis
      by (simp only: hextable_nth)
  qed
  then have "set (EncodeToString src) \<subseteq> set hextable"
    unfolding EncodeToString_def by (induction src) auto
  then show ?thesis
    by (simp only: hextable_def)
qed

lemma length_EncodeToString: "length (EncodeToString src) = 2 * length src"
  unfolding EncodeToString_def by (induction src) auto

lemma EncodeToString_Nil: "EncodeToString [] = []"
  by (simp add: EncodeToString_def)

lemma EncodeToString_Cons:
  "EncodeToString (v # src) =
     hextable ! (unat v div 16) # hextable ! (unat v mod 16) # EncodeToString src"
  by (simp add: EncodeToString_def)

lemma EncodeToString_append:
  "EncodeToString (xs @ ys) = EncodeToString xs @ EncodeToString ys"
  by (simp add: EncodeToString_def)

lemma EncodeToString_zeros: "EncodeToString (replicate n 0) = concat (replicate n ''00'')"
  by (induction n) (simp_all add: EncodeToString_def hextable_def)

lemma length_genSplit: "length (genSplit w s) = Suc (count_list s (CHR '' ''))"
  by (induction s arbitrary: w) auto

lemma genSplit_word:
  "CHR '' '' \<notin> set x \<Longrightarrow> genSplit w (x @ s) = genSplit (w @ x) s"
  by (induction x arbitrary: w) auto

lemma genSplit_words:
  assumes "\<forall>x \<in> set (w # ws). CHR '' '' \<notin> set x"
  shows "genSplit [] (concat (map (\<lambda>x. x @ '' '') ws) @ w) = ws @ [w]"
  using assms
proof (induction ws)
  case Nil
  then show ?case
    using genSplit_word [of w "[]" "[]"] by simp
next
  case (Cons x ws)
  then have "CHR '' '' \<notin> set x"
    by simp
  then have "genSplit [] (x @ CHR '' '' # concat (map (\<lambda>x. x @ '' '') ws) @ w) =
      x # genSplit [] (concat (map (\<lambda>x. x @ '' '') ws) @ w)"
    by (simp add: genSplit_word)
  with Cons show ?case
    by simp
qed

lemma password_bytes:
  "(if aezeedPass \<noteq> [] then bytesOfString aezeedPass else []) = bytesOfString aezeedPass"
  by (simp add: bytesOfString_def)

lemma main_empty:
  "main L A [] aezeedPass = \<lparr>stdout = [], stderr = [PrintDefaults], exit_code = 0\<rparr>"
  by (simp add: main_def)

lemma main_word_count:
  assumes "mnemonic \<noteq> []" and "length (Split mnemonic) \<noteq> NummnemonicWords"
  shows "main L A mnemonic aezeedPass =
     Fatalf [] (''expected '' @ showNat NummnemonicWords @ '' words, instead got '' @
       showNat (length (Split mnemonic)))"
  using assms by (simp add: main_def Let_def)

lemma main_decrypt:
  assumes "mnemonic \<noteq> []" and "length (Split mnemonic) = NummnemonicWords"
  shows "main L A mnemonic aezeedPass =
     (case ToCipherSeed A (Split mnemonic) (bytesOfString aezeedPass) of
        Inl err \<Rightarrow> Fatalf [] (''unable to decrypt cipher seed: '' @ Error err)
      | Inr cipherSeed \<Rightarrow>
          (case NewMaster L (Entropy cipherSeed) MainNetParams of
             Inl err \<Rightarrow>
               Fatalf [birthdayLine A cipherSeed] (''unable to make HD priv root: '' @ Error err)
           | Inr rootKey \<Rightarrow>
               (case main_derive L rootKey (BIP0043Purpose, KeyFamilyNodeKey)
                       (KeyScopeBIP0084_Purpose, 0) (KeyScopeBIP0049Plus_Purpose, 0) of
                  Inl msg \<Rightarrow> Fatalf [birthdayLine A cipherSeed] msg
                | Inr (nodePub, firstP2wkhKey, firstSegwitAddr, firstNp2wkhKey,
                       firstNestedSegwitAddr) \<Rightarrow>
                    \<lparr>stdout =
                       [birthdayLine A cipherSeed,
                        Println [''Node pub key: '',
                          EncodeToString (SerializeCompressed L nodePub)],
                        Println [''First p2wkh address: '', EncodeAddress L firstSegwitAddr],
                        Println [''First n2pwkh address'',
                          EncodeAddress L firstNestedSegwitAddr]],
                     stderr = [], exit_code = 0\<rparr>)))"
  using assms by (simp add: main_def Let_def password_bytes split: sum.splits)

lemma main_derive_Inr:
  assumes "deriveFirstKey L rootKey (fst a) (snd a) = Inr nodePub"
    and "deriveFirstKey L rootKey (fst b) (snd b) = Inr k2"
    and "keyToP2wkhAddr L k2 = Inr a2"
    and "deriveFirstKey L rootKey (fst c) (snd c) = Inr k3"
    and "keyToNp2wkhAddr L k3 = Inr a3"
  shows "main_derive L rootKey a b c = Inr (nodePub, k2, a2, k3, a3)"
  using assms by (simp add: main_derive_def)

lemma main_derive_Inr_iff:
  "main_derive L rootKey a b c = Inr (nodePub, k2, a2, k3, a3) \<longleftrightarrow>
     deriveFirstKey L rootKey (fst a) (snd a) = Inr nodePub \<and>
     deriveFirstKey L rootKey (fst b) (snd b) = Inr k2 \<and>
     keyToP2wkhAddr L k2 = Inr a2 \<and>
     deriveFirstKey L rootKey (fst c) (snd c) = Inr k3 \<and>
     keyToNp2wkhAddr L k3 = Inr a3"
  by (auto simp: main_derive_def split: sum.splits)

lemma main_derive_Inl:
  assumes "deriveFirstKey L rootKey (fst a) (snd a) = Inl err \<or>
     deriveFirstKey L rootKey (fst b) (snd b) = Inl err \<or>
     (\<exists>key. deriveFirstKey L rootKey (fst b) (snd b) = Inr key \<and> keyToP2wkhAddr L key = Inl err) \<or>
     deriveFirstKey L rootKey (fst c) (snd c) = Inl err \<or>
     (\<exists>key. deriveFirstKey L rootKey (fst c) (snd c) = Inr key \<and> keyToNp2wkhAddr L key = Inl err)"
  shows "\<exists>rest. main_derive L rootKey a b c = Inl (''unable to '' @ rest)"
  using assms by (auto simp: main_derive_def split: sum.splits)

lemma Child_spec_public_hardened:
  assumes "keyMaterial parent = Public pt" and "hardenedIndex i"
  shows "Child_spec P parent i = Inl HardenedFromPublicOnly"
  using assms by (simp add: Child_spec_def deriveChild_def hardenedIndex_def)

lemma Child_spec_public_child:
  assumes "keyMaterial parent = Public pt" and "Child_spec P parent i = Inr child"
  shows "\<exists>pt'. keyMaterial child = Public pt'"
  using assms
  by (auto simp: Child_spec_def deriveChild_def Let_def split: if_splits)

subsection \<open>The small instance, evaluated\<close>

lemma last_be_bytes: "0 < n \<Longrightarrow> last (xs @ be_bytes n v) = of_nat (v mod 256)"
  by (cases n) simp_all

lemma toy_tweak_last:
  assumes "last key = of_nat (unat (i :: u32) mod 256)"
  shows "os2ip (take 32 (hmacSHA512 toyPrims key cc)) = unat i mod 64 + 1"
proof -
  have "unat (of_nat (unat i mod 256) :: u8) mod 64 = unat i mod 64"
    by (simp add: unat_of_nat mod_mod_cancel)
  moreover have "unat (of_nat (unat i mod 64 + 1) :: u8) = unat i mod 64 + 1"
  proof -
    have "unat i mod 64 + 1 < 256"
      using mod_less_divisor [of 64 "unat i"] by linarith
    then show ?thesis
      by (subst unat_of_nat) simp
  qed
  ultimately show ?thesis
    by (simp add: toyPrims_def assms del: of_nat_add of_nat_Suc)
qed

lemma toy_tweak:
  "os2ip (take 32 (hmacSHA512 toyPrims (ser @ be_bytes 4 (unat (i :: u32))) cc)) =
     unat i mod 64 + 1"
  "os2ip (take 32 (hmacSHA512 toyPrims (a # ser @ be_bytes 4 (unat i)) cc)) =
     unat i mod 64 + 1"
proof -
  show "os2ip (take 32 (hmacSHA512 toyPrims (ser @ be_bytes 4 (unat i)) cc)) =
     unat i mod 64 + 1"
    by (rule toy_tweak_last) (simp add: last_be_bytes)
  have "last (a # ser @ be_bytes 4 (unat i)) = last ((a # ser) @ be_bytes 4 (unat i))"
    by simp
  also have "\<dots> = of_nat (unat i mod 256)"
    by (rule last_be_bytes) simp
  finally show "os2ip (take 32 (hmacSHA512 toyPrims (a # ser @ be_bytes 4 (unat i)) cc)) =
     unat i mod 64 + 1"
    by (rule toy_tweak_last)
qed

lemma toy_chain:
  "length cc = 32 \<Longrightarrow> drop 32 (hmacSHA512 toyPrims key cc) = cc"
  by (simp add: toyPrims_def)

lemma toy_NewMaster: "NewMaster_spec toyPrims (replicate 16 0) net = Inr toyMaster"
  by (simp add: NewMaster_spec_def toyPrims_def toyMaster_def Let_def)

lemma toy_Child_private:
  assumes "keyMaterial p = Private k" and "k < 65000" and "length (chainCode p) = 32"
  shows "Child_spec toyPrims p i =
     Inr \<lparr>depth = depth p + 1,
          parentFingerprint =
            take 4 (ripemd160sha256 toyPrims (serializePoint toyPrims (int k, 0))),
          childIndex = i, chainCode = chainCode p,
          keyMaterial = Private (unat i mod 64 + 1 + k)\<rparr>"
proof -
  have small: "unat i mod 64 + 1 + k < 65521"
    using assms(2) mod_less_divisor [of 64 "unat i"] by linarith
  have order: "curveOrder toyPrims = 65521" and base: "scalarBaseMult toyPrims k = (int k, 0)"
    by (simp_all add: toyPrims_def)
  have restore: "HardenedKeyStart \<le> i \<Longrightarrow> i - HardenedKeyStart + 0x80000000 = i"
    by (simp add: HardenedKeyStart_def)
  show ?thesis
    using assms small
    by (simp add: Child_spec_def deriveChild_def Let_def toy_tweak toy_chain order base restore)
qed

lemma toy_Child_public:
  assumes "keyMaterial p = Public pt" and "\<not> hardenedIndex i"
    and "length (chainCode p) = 32"
  shows "Child_spec toyPrims p i =
     Inr \<lparr>depth = depth p + 1,
          parentFingerprint = take 4 (ripemd160sha256 toyPrims (serializePoint toyPrims pt)),
          childIndex = i, chainCode = chainCode p,
          keyMaterial = Public (int (unat i mod 64 + 1) + fst pt, snd pt)\<rparr>"
proof -
  have small: "unat i mod 64 + 1 < 65521"
    using mod_less_divisor [of 64 "unat i"] by linarith
  have order: "curveOrder toyPrims = 65521"
    and add: "pointAdd toyPrims (scalarBaseMult toyPrims t) pt = (int t + fst pt, snd pt)" for t
    by (simp_all add: toyPrims_def)
  show ?thesis
    using assms small
    by (simp add: Child_spec_def deriveChild_def Let_def toy_tweak toy_chain order add
        hardenedIndex_def)
qed

lemma unat_hardened_mod64: "unat (i + HardenedKeyStart) mod 64 = unat i mod 64"
proof -
  have "unat (i + HardenedKeyStart) = (unat i + 2 ^ 31) mod 2 ^ 32"
    by (simp add: unat_word_ariths unat_HardenedKeyStart)
  moreover have "(unat i + 2 ^ 31) mod 2 ^ 32 mod 64 = (unat i + 2 ^ 31) mod 64"
    by (rule mod_mod_cancel) simp
  moreover have "(unat i + 64 * 33554432) mod 64 = unat i mod 64"
    by (rule mod_mult_self2)
  ultimately show ?thesis
    by simp
qed

lemma toy_Child_private_step:
  assumes "keyMaterial p = Private k" and "k < 65000" and "length (chainCode p) = 32"
  shows "\<exists>c. Child_spec toyPrims p i = Inr c \<and> keyMaterial c = Private (unat i mod 64 + 1 + k) \<and>
    length (chainCode c) = 32"
  using toy_Child_private [OF assms, of i] assms(3) by simp

lemma toy_deriveFirstKey:
  "deriveFirstKey (specLib toyPrims) toyMaster p f =
     Inr (int (42 + unat p mod 64 + unat f mod 64), 0)"
proof -
  define a where "a = unat p mod 64"
  define b where "b = unat f mod 64"
  have a: "a < 64" and b: "b < 64"
    by (simp_all add: a_def b_def)
  have coin: "unat CoinTypeBitcoin mod 64 = 0"
    by (simp add: CoinTypeBitcoin_def)
  have m: "keyMaterial toyMaster = Private 37" "(37 :: nat) < 65000"
    "length (chainCode toyMaster) = 32"
    by (simp_all add: toyMaster_def)
  obtain k1 where k1: "Child_spec toyPrims toyMaster (p + HardenedKeyStart) = Inr k1"
    "keyMaterial k1 = Private (a + 1 + 37)" "length (chainCode k1) = 32"
    using toy_Child_private_step [OF m, of "p + HardenedKeyStart"]
    by (auto simp: unat_hardened_mod64 a_def)
  have b1: "a + 1 + 37 < 65000"
    using a by linarith
  obtain k2 where k2: "Child_spec toyPrims k1 (CoinTypeBitcoin + HardenedKeyStart) = Inr k2"
    "keyMaterial k2 = Private (1 + (a + 1 + 37))" "length (chainCode k2) = 32"
    using toy_Child_private_step [OF k1(2) b1 k1(3), of "CoinTypeBitcoin + HardenedKeyStart"]
    by (auto simp: unat_hardened_mod64 coin)
  have b2: "1 + (a + 1 + 37) < 65000"
    using a by linarith
  obtain k3 where k3: "Child_spec toyPrims k2 (f + HardenedKeyStart) = Inr k3"
    "keyMaterial k3 = Private (b + 1 + (1 + (a + 1 + 37)))" "length (chainCode k3) = 32"
    using toy_Child_private_step [OF k2(2) b2 k2(3), of "f + HardenedKeyStart"]
    by (auto simp: unat_hardened_mod64 b_def)
  have b3: "b + 1 + (1 + (a + 1 + 37)) < 65000"
    using a b by linarith
  obtain k4 where k4: "Child_spec toyPrims k3 0 = Inr k4"
    "keyMaterial k4 = Private (1 + (b + 1 + (1 + (a + 1 + 37))))" "length (chainCode k4) = 32"
    using toy_Child_private_step [OF k3(2) b3 k3(3), of 0]
    by auto
  have b4: "1 + (b + 1 + (1 + (a + 1 + 37))) < 65000"
    using a b by linarith
  obtain k5 where k5: "Child_spec toyPrims k4 0 = Inr k5"
    "keyMaterial k5 = Private (1 + (1 + (b + 1 + (1 + (a + 1 + 37)))))"
    using toy_Child_private_step [OF k4(2) b4 k4(3), of 0]
    by auto
  have "ECPubKey_spec toyPrims k5 = Inr (int (42 + a + b), 0)"
    by (simp add: ECPubKey_spec_def k5(2) toyPrims_def)
  then show ?thesis
    by (simp add: deriveFirstKey_def deriveAccountKey_def specLib_def k1(1) k2(1) k3(1) k4(1)
        k5(1) a_def b_def)
qed

lemma toy_nodeKey:
  "deriveFirstKey (specLib toyPrims) toyMaster BIP0043Purpose KeyFamilyNodeKey = Inr (105, 0)"
  by (simp add: toy_deriveFirstKey BIP0043Purpose_def KeyFamilyNodeKey_def)

lemma toy_p2wkhKey:
  "deriveFirstKey (specLib toyPrims) toyMaster KeyScopeBIP0084_Purpose 0 = Inr (62, 0)"
  by (simp add: toy_deriveFirstKey KeyScopeBIP0084_Purpose_def)

lemma toy_np2wkhKey:
  "deriveFirstKey (specLib toyPrims) toyMaster KeyScopeBIP0049Plus_Purpose 0 = Inr (91, 0)"
  by (simp add: toy_deriveFirstKey KeyScopeBIP0049Plus_Purpose_def)

lemma toy_serializePoint:
  "v < 256 \<Longrightarrow> serializePoint toyPrims (int v, 0) = 2 # replicate 31 0 @ [of_nat v]"
proof -
  assume "v < 256"
  then have "be_bytes (Suc 31) v = replicate 31 0 @ [of_nat v]"
    by (rule be_bytes_small)
  then show ?thesis
    by (simp add: toyPrims_def)
qed

lemma toy_hash_key:
  "ripemd160sha256 toyPrims (2 # replicate 31 0 @ [x]) = x # replicate 19 0"
  by (simp add: toyPrims_def)

lemma toy_hash_script:
  "ripemd160sha256 toyPrims (0 # 20 # x # replicate 19 0) = replicate 19 0 @ [x]"
  by (simp add: toyPrims_def)

lemma toy_NewMaster_main:
  "NewMaster (specLib toyPrims) (Entropy toyCipherSeed) MainNetParams = Inr toyMaster"
  by (simp add: specLib_def toyCipherSeed_def toy_NewMaster)

lemma toy_keyToP2wkhAddr:
  "keyToP2wkhAddr (specLib toyPrims) (62, 0) =
     Inr (AddressWitnessPubKeyHash ''bc'' 0 (62 # replicate 19 0))"
proof -
  have "serializePoint toyPrims (int 62, 0) = 2 # replicate 31 0 @ [of_nat 62]"
    by (rule toy_serializePoint) simp
  then show ?thesis
    by (simp add: keyToP2wkhAddr_def specLib_def toy_hash_key
        NewAddressWitnessPubKeyHash_spec_def MainNetParams_def)
qed

lemma toy_keyToNp2wkhAddr:
  "keyToNp2wkhAddr (specLib toyPrims) (91, 0) =
     Inr (AddressScriptHash (replicate 19 0 @ [91]) 5)"
proof -
  have "serializePoint toyPrims (int 91, 0) = 2 # replicate 31 0 @ [of_nat 91]"
    by (rule toy_serializePoint) simp
  then show ?thesis
    by (simp add: keyToNp2wkhAddr_def specLib_def toy_hash_key toy_hash_script
        NewAddressWitnessPubKeyHash_spec_def PayToAddrScript_spec_def
        NewAddressScriptHash_spec_def MainNetParams_def)
qed

lemma toy_main_derive:
  "main_derive (specLib toyPrims) toyMaster (BIP0043Purpose, KeyFamilyNodeKey)
       (KeyScopeBIP0084_Purpose, 0) (KeyScopeBIP0049Plus_Purpose, 0) =
     Inr ((105, 0), (62, 0), AddressWitnessPubKeyHash ''bc'' 0 (62 # replicate 19 0),
          (91, 0), AddressScriptHash (replicate 19 0 @ [91]) 5)"
  by (rule main_derive_Inr)
    (simp_all add: toy_nodeKey toy_p2wkhKey toy_np2wkhKey toy_keyToP2wkhAddr
      toy_keyToNp2wkhAddr)

lemma toy_hex_key:
  "EncodeToString (SerializeCompressed (specLib toyPrims) (105, 0)) =
     ''02'' @ concat (replicate 31 ''00'') @ ''69''"
proof -
  have "serializePoint toyPrims (int 105, 0) = 2 # replicate 31 0 @ [of_nat 105]"
    by (rule toy_serializePoint) simp
  then show ?thesis
    by (simp add: specLib_def EncodeToString_Nil EncodeToString_Cons
        EncodeToString_append EncodeToString_zeros hextable_def del: replicate.simps)
qed

lemma toy_Split:
  "Split toyMnemonic =
     [''a'', ''b'', ''c'', ''d'', ''e'', ''f'', ''g'', ''h'', ''i'', ''j'', ''k'', ''l'',
      ''m'', ''n'', ''o'', ''p'', ''q'', ''r'', ''s'', ''t'', ''u'', ''v'', ''w'', ''x'']"
  by (simp add: Split_def toyMnemonic_def)

lemma toy_word_count: "length (Split toyMnemonic) = NummnemonicWords"
  by (simp add: toy_Split NummnemonicWords_def)

lemma toyMnemonic_nonempty: "toyMnemonic \<noteq> []"
  by (simp add: toyMnemonic_def)

lemma toy_ToCipherSeed: "ToCipherSeed toyAezeed ws pw = Inr toyCipherSeed"
  by (simp add: toyAezeed_def)

lemma toy_birthdayLine:
  "birthdayLine toyAezeed toyCipherSeed =
     ''Wallet Birthday: 1552673705, Internal Version: 0'' @ newline"
  by (simp add: birthdayLine_def toyAezeed_def toyCipherSeed_def showNat_digit showNat_step)

lemma badTweak_NewMaster:
  "NewMaster (specLib badTweakPrims) (Entropy toyCipherSeed) MainNetParams = Inr toyMaster"
  by (simp add: specLib_def NewMaster_spec_def badTweakPrims_def toyPrims_def toyMaster_def
      toyCipherSeed_def Let_def)

lemma badTweak_nodeKey:
  "deriveFirstKey (specLib badTweakPrims) toyMaster BIP0043Purpose KeyFamilyNodeKey =
     Inl (Errorf ''unable to derive purpose key; '' InvalidTweak)"
proof -
  have hmac: "hmacSHA512 badTweakPrims = hmacSHA512 toyPrims"
    and order: "curveOrder badTweakPrims = 50"
    by (simp_all add: badTweakPrims_def)
  have "Child_spec badTweakPrims toyMaster (BIP0043Purpose + HardenedKeyStart) =
      Inl InvalidTweak"
    by (simp add: Child_spec_def deriveChild_def Let_def toyMaster_def hmac order toy_tweak
        BIP0043Purpose_def HardenedKeyStart_def)
  then show ?thesis
    by (simp add: deriveFirstKey_def deriveAccountKey_def specLib_def)
qed

subsection \<open>The path deriver\<close>

text \<open>
  Claim C2, as amended. For a purpose and a key family below \<open>2^31\<close>,
  \<open>deriveAccountKey\<close> walks exactly three indices from the root, in this order: the
  purpose, the Bitcoin coin type and the key family, each raised by \<open>2^31\<close> and so each
  in the hardened range; it returns a key exactly when that walk does. \<open>deriveFirstKey\<close>
  continues the same walk with the two indices 0 and 0, which are not hardened, and
  returns the public key of the leaf. (At or above \<open>2^31\<close> the 32-bit sum wraps around
  and the index is no longer hardened: see the counterexample.)
\<close>

theorem deriveAccountKey_three_hardened_steps:
  assumes "purpose < HardenedKeyStart" and "keyFamily < HardenedKeyStart"
  shows "\<exists>i1 i2 i3.
           unat i1 = 2 ^ 31 + unat purpose \<and>
           unat i2 = 2 ^ 31 + unat CoinTypeBitcoin \<and>
           unat i3 = 2 ^ 31 + unat keyFamily \<and>
           hardenedIndex i1 \<and> hardenedIndex i2 \<and> hardenedIndex i3 \<and> \<not> hardenedIndex 0 \<and>
           (\<forall>k. deriveAccountKey L rootKey purpose keyFamily = Inr k \<longleftrightarrow>
                  walkPath L rootKey [i1, i2, i3] = Inr k) \<and>
           (\<forall>pk. deriveFirstKey L rootKey purpose keyFamily = Inr pk \<longleftrightarrow>
                  (\<exists>leaf. walkPath L rootKey [i1, i2, i3, 0, 0] = Inr leaf \<and>
                     ECPubKey L leaf = Inr pk))"
proof (intro exI conjI)
  show "unat (purpose + HardenedKeyStart) = 2 ^ 31 + unat purpose"
    by (rule unat_add_hardened [OF assms(1)])
  show "unat (CoinTypeBitcoin + HardenedKeyStart) = 2 ^ 31 + unat CoinTypeBitcoin"
    by (rule unat_add_hardened [OF CoinType_less])
  show "unat (keyFamily + HardenedKeyStart) = 2 ^ 31 + unat keyFamily"
    by (rule unat_add_hardened [OF assms(2)])
  show "hardenedIndex (purpose + HardenedKeyStart)"
    by (rule hardened_add [OF assms(1)])
  show "hardenedIndex (CoinTypeBitcoin + HardenedKeyStart)"
    by (rule hardened_add [OF CoinType_less])
  show "hardenedIndex (keyFamily + HardenedKeyStart)"
    by (rule hardened_add [OF assms(2)])
  show "\<not> hardenedIndex 0"
    by (rule not_hardened_zero)
  show "\<forall>k. deriveAccountKey L rootKey purpose keyFamily = Inr k \<longleftrightarrow>
          walkPath L rootKey
            [purpose + HardenedKeyStart, CoinTypeBitcoin + HardenedKeyStart,
             keyFamily + HardenedKeyStart] = Inr k"
    unfolding deriveAccountKey_Inr_iff walkPath3 by simp
  show "\<forall>pk. deriveFirstKey L rootKey purpose keyFamily = Inr pk \<longleftrightarrow>
          (\<exists>leaf. walkPath L rootKey
              [purpose + HardenedKeyStart, CoinTypeBitcoin + HardenedKeyStart,
               keyFamily + HardenedKeyStart, 0, 0] = Inr leaf \<and> ECPubKey L leaf = Inr pk)"
  proof
    fix pk
    show "deriveFirstKey L rootKey purpose keyFamily = Inr pk \<longleftrightarrow>
          (\<exists>leaf. walkPath L rootKey
              [purpose + HardenedKeyStart, CoinTypeBitcoin + HardenedKeyStart,
               keyFamily + HardenedKeyStart, 0, 0] = Inr leaf \<and> ECPubKey L leaf = Inr pk)"
      unfolding deriveFirstKey_Inr_iff deriveAccountKey_Inr_iff
      by (auto split: sum.splits)
  qed
qed

text \<open>
  Claim C2, witness: purpose 84 and key family 0 on the master node of the small
  instance. The purposes and key families of the three call sites of \<open>main\<close> are all
  below \<open>2^31\<close>.
\<close>

theorem deriveAccountKey_three_hardened_steps_witness:
  "BIP0043Purpose < HardenedKeyStart \<and> KeyFamilyNodeKey < HardenedKeyStart \<and>
   KeyScopeBIP0084_Purpose < HardenedKeyStart \<and>
   KeyScopeBIP0049Plus_Purpose < HardenedKeyStart \<and>
   (84 :: u32) < HardenedKeyStart \<and> (0 :: u32) < HardenedKeyStart \<and>
   (\<exists>i1 i2 i3.
      unat i1 = 2 ^ 31 + unat (84 :: u32) \<and>
      unat i2 = 2 ^ 31 + unat CoinTypeBitcoin \<and>
      unat i3 = 2 ^ 31 + unat (0 :: u32) \<and>
      hardenedIndex i1 \<and> hardenedIndex i2 \<and> hardenedIndex i3 \<and> \<not> hardenedIndex 0 \<and>
      (\<forall>k. deriveAccountKey (specLib toyPrims) toyMaster 84 0 = Inr k \<longleftrightarrow>
             walkPath (specLib toyPrims) toyMaster [i1, i2, i3] = Inr k) \<and>
      (\<forall>pk. deriveFirstKey (specLib toyPrims) toyMaster 84 0 = Inr pk \<longleftrightarrow>
             (\<exists>leaf. walkPath (specLib toyPrims) toyMaster [i1, i2, i3, 0, 0] = Inr leaf \<and>
                ECPubKey (specLib toyPrims) leaf = Inr pk))) \<and>
   deriveFirstKey (specLib toyPrims) toyMaster 84 0 = Inr (62, 0)"
proof -
  have a: "(84 :: u32) < HardenedKeyStart" and b: "(0 :: u32) < HardenedKeyStart"
    by (simp_all add: HardenedKeyStart_def)
  have sites: "BIP0043Purpose < HardenedKeyStart" "KeyFamilyNodeKey < HardenedKeyStart"
    "KeyScopeBIP0084_Purpose < HardenedKeyStart" "KeyScopeBIP0049Plus_Purpose < HardenedKeyStart"
    by (simp_all add: BIP0043Purpose_def KeyFamilyNodeKey_def KeyScopeBIP0084_Purpose_def
        KeyScopeBIP0049Plus_Purpose_def HardenedKeyStart_def)
  show ?thesis
    using a b sites
      deriveAccountKey_three_hardened_steps [OF a b, of "specLib toyPrims" toyMaster]
      toy_p2wkhKey [unfolded KeyScopeBIP0084_Purpose_def]
    by blast
qed

text \<open>
  Claim C2, counterexample to the claim as stated for every purpose. At purpose \<open>2^31\<close>
  the sum with \<open>HardenedKeyStart\<close> wraps to 0, which is not a hardened index. The
  difference shows on a node that carries only a public point: the first derivation
  goes through, which no hardened derivation can, and it is the coin-type step that fails.
\<close>

theorem deriveAccountKey_wraps_counterexample:
  "\<not> hardenedIndex ((0x80000000 :: u32) + HardenedKeyStart) \<and>
   deriveAccountKey (specLib toyPrims) publicRoot 0x80000000 0 =
     Inl (Errorf ''unable to generate coin type key: '' HardenedFromPublicOnly)"
proof -
  have idx: "(0x80000000 :: u32) + HardenedKeyStart = 0"
    by (simp add: HardenedKeyStart_def)
  have coin: "hardenedIndex (CoinTypeBitcoin + HardenedKeyStart)"
    by (rule hardened_add [OF CoinType_less])
  have root: "keyMaterial publicRoot = Public (5, 0)" "length (chainCode publicRoot) = 32"
    by (simp_all add: publicRoot_def)
  obtain purposeKey where first: "Child_spec toyPrims publicRoot 0 = Inr purposeKey"
    and "keyMaterial purposeKey = Public (int (unat (0 :: u32) mod 64 + 1) + fst (5 :: int, 0 :: int),
      snd (5 :: int, 0 :: int))"
    using toy_Child_public [OF root(1) not_hardened_zero root(2)] by simp
  then have second: "Child_spec toyPrims purposeKey (CoinTypeBitcoin + HardenedKeyStart) =
      Inl HardenedFromPublicOnly"
    using coin by (simp add: Child_spec_public_hardened)
  show ?thesis
    by (simp add: idx not_hardened_zero deriveAccountKey_def specLib_def first second)
qed

subsection \<open>Hardened derivation needs private material\<close>

text \<open>
  Claim C4, as amended. On a node that carries only a public point, child derivation
  at every hardened index fails with \<open>HardenedFromPublicOnly\<close> and returns no key.
  Consequently \<open>deriveAccountKey\<close> on such a root always fails; it fails at its first
  step, with that error, when the purpose is below \<open>2^31\<close>. (For a purpose from
  \<open>2^31\<close> on, the first index wraps into the non-hardened range and the failure comes
  at the coin-type step at the latest.)
\<close>

theorem hardened_from_public_fails:
  assumes "keyMaterial rootKey = Public pt"
  shows "(\<forall>i. hardenedIndex i \<longrightarrow> Child_spec P rootKey i = Inl HardenedFromPublicOnly) \<and>
         (\<forall>index. deriveChild P rootKey index True = Inl HardenedFromPublicOnly) \<and>
         (\<exists>e. deriveAccountKey (specLib P) rootKey purpose keyFamily = Inl e) \<and>
         (purpose < HardenedKeyStart \<longrightarrow>
            deriveAccountKey (specLib P) rootKey purpose keyFamily =
              Inl (Errorf ''unable to derive purpose key; '' HardenedFromPublicOnly))"
proof (intro conjI allI impI)
  fix i
  assume "hardenedIndex i"
  then show "Child_spec P rootKey i = Inl HardenedFromPublicOnly"
    by (rule Child_spec_public_hardened [OF assms])
next
  fix index
  show "deriveChild P rootKey index True = Inl HardenedFromPublicOnly"
    using assms by (simp add: deriveChild_def)
next
  have coin: "hardenedIndex (CoinTypeBitcoin + HardenedKeyStart)"
    by (rule hardened_add [OF CoinType_less])
  show "\<exists>e. deriveAccountKey (specLib P) rootKey purpose keyFamily = Inl e"
  proof (cases "Child_spec P rootKey (purpose + HardenedKeyStart)")
    case (Inl e)
    then show ?thesis
      by (simp add: deriveAccountKey_def specLib_def)
  next
    case (Inr purposeKey)
    then obtain pt' where "keyMaterial purposeKey = Public pt'"
      using Child_spec_public_child [OF assms] by blast
    then have "Child_spec P purposeKey (CoinTypeBitcoin + HardenedKeyStart) =
        Inl HardenedFromPublicOnly"
      using coin by (rule Child_spec_public_hardened)
    with Inr show ?thesis
      by (simp add: deriveAccountKey_def specLib_def)
  qed
next
  assume "purpose < HardenedKeyStart"
  then have "hardenedIndex (purpose + HardenedKeyStart)"
    by (rule hardened_add)
  then have "Child_spec P rootKey (purpose + HardenedKeyStart) = Inl HardenedFromPublicOnly"
    by (rule Child_spec_public_hardened [OF assms])
  then show "deriveAccountKey (specLib P) rootKey purpose keyFamily =
      Inl (Errorf ''unable to derive purpose key; '' HardenedFromPublicOnly)"
    by (simp add: deriveAccountKey_def specLib_def)
qed

text \<open>Claim C4, witness: the public node of the small instance, purpose 84.\<close>

theorem hardened_from_public_fails_witness:
  "keyMaterial publicRoot = Public (5, 0) \<and>
   hardenedIndex 0x80000054 \<and>
   Child_spec toyPrims publicRoot 0x80000054 = Inl HardenedFromPublicOnly \<and>
   deriveChild toyPrims publicRoot 84 True = Inl HardenedFromPublicOnly \<and>
   (84 :: u32) < HardenedKeyStart \<and>
   deriveAccountKey (specLib toyPrims) publicRoot 84 0 =
     Inl (Errorf ''unable to derive purpose key; '' HardenedFromPublicOnly)"
proof -
  have a: "keyMaterial publicRoot = Public (5, 0)"
    by (simp add: publicRoot_def)
  have b: "hardenedIndex 0x80000054" and c: "(84 :: u32) < HardenedKeyStart"
    by (simp_all add: hardenedIndex_def HardenedKeyStart_def)
  show ?thesis
    using a b c hardened_from_public_fails [OF a, of toyPrims 84 0]
    by blast
qed

text \<open>
  Claim C4, counterexample to the last part of the claim as stated. With purpose
  \<open>2^31 + 49\<close> the first derivation on the public node returns a key, and
  \<open>deriveAccountKey\<close> fails at its second step.
\<close>

theorem hardened_from_public_second_step_counterexample:
  "\<not> isl (Child (specLib toyPrims) publicRoot (0x80000031 + HardenedKeyStart)) \<and>
   deriveAccountKey (specLib toyPrims) publicRoot 0x80000031 6 =
     Inl (Errorf ''unable to generate coin type key: '' HardenedFromPublicOnly)"
proof -
  have idx: "(0x80000031 :: u32) + HardenedKeyStart = 49"
    by (simp add: HardenedKeyStart_def)
  have soft: "\<not> hardenedIndex 49"
    by (simp add: hardenedIndex_def HardenedKeyStart_def)
  have coin: "hardenedIndex (CoinTypeBitcoin + HardenedKeyStart)"
    by (rule hardened_add [OF CoinType_less])
  have root: "keyMaterial publicRoot = Public (5, 0)" "length (chainCode publicRoot) = 32"
    by (simp_all add: publicRoot_def)
  obtain purposeKey where first: "Child_spec toyPrims publicRoot 49 = Inr purposeKey"
    and "keyMaterial purposeKey = Public (int (unat (49 :: u32) mod 64 + 1) + fst (5 :: int, 0 :: int),
      snd (5 :: int, 0 :: int))"
    using toy_Child_public [OF root(1) soft root(2)] by simp
  then have second: "Child_spec toyPrims purposeKey (CoinTypeBitcoin + HardenedKeyStart) =
      Inl HardenedFromPublicOnly"
    using coin by (simp add: Child_spec_public_hardened)
  show ?thesis
    by (simp add: idx deriveAccountKey_def specLib_def first second)
qed

subsection \<open>A failing run\<close>

text \<open>
  Claim C1, as amended. If the master-key construction, any of the three key derivations
  or either address encoding fails, the process reports the failure on standard error
  (a message starting with "unable to") and exits with status 1. Standard output then
  holds exactly one line, the wallet-birthday and version line, which \<open>main\<close> prints
  before it builds the master key; none of the three key and address lines is printed.
\<close>

theorem failure_leaves_birthday_line:
  assumes "mnemonic \<noteq> []" and "length (Split mnemonic) = NummnemonicWords"
    and "ToCipherSeed A (Split mnemonic) (bytesOfString aezeedPass) = Inr cipherSeed"
    and "NewMaster L (Entropy cipherSeed) MainNetParams = Inl err \<or>
      (\<exists>rootKey. NewMaster L (Entropy cipherSeed) MainNetParams = Inr rootKey \<and>
         (deriveFirstKey L rootKey BIP0043Purpose KeyFamilyNodeKey = Inl err \<or>
          deriveFirstKey L rootKey KeyScopeBIP0084_Purpose 0 = Inl err \<or>
          (\<exists>key. deriveFirstKey L rootKey KeyScopeBIP0084_Purpose 0 = Inr key \<and>
             keyToP2wkhAddr L key = Inl err) \<or>
          deriveFirstKey L rootKey KeyScopeBIP0049Plus_Purpose 0 = Inl err \<or>
          (\<exists>key. deriveFirstKey L rootKey KeyScopeBIP0049Plus_Purpose 0 = Inr key \<and>
             keyToNp2wkhAddr L key = Inl err)))"
  shows "\<exists>rest. main L A mnemonic aezeedPass =
     \<lparr>stdout = [birthdayLine A cipherSeed], stderr = [''unable to '' @ rest @ newline],
      exit_code = 1\<rparr>"
proof -
  consider (master) "NewMaster L (Entropy cipherSeed) MainNetParams = Inl err"
    | (later) rootKey where "NewMaster L (Entropy cipherSeed) MainNetParams = Inr rootKey"
        and "deriveFirstKey L rootKey BIP0043Purpose KeyFamilyNodeKey = Inl err \<or>
          deriveFirstKey L rootKey KeyScopeBIP0084_Purpose 0 = Inl err \<or>
          (\<exists>key. deriveFirstKey L rootKey KeyScopeBIP0084_Purpose 0 = Inr key \<and>
             keyToP2wkhAddr L key = Inl err) \<or>
          deriveFirstKey L rootKey KeyScopeBIP0049Plus_Purpose 0 = Inl err \<or>
          (\<exists>key. deriveFirstKey L rootKey KeyScopeBIP0049Plus_Purpose 0 = Inr key \<and>
             keyToNp2wkhAddr L key = Inl err)"
    using assms(4) by blast
  then show ?thesis
  proof cases
    case master
    then show ?thesis
      by (simp add: main_decrypt [OF assms(1,2)] assms(3) Fatalf_def)
  next
    case later
    note root = later(1) and step = later(2)
  from step obtain rest where
    "main_derive L rootKey (BIP0043Purpose, KeyFamilyNodeKey)
       (KeyScopeBIP0084_Purpose, 0) (KeyScopeBIP0049Plus_Purpose, 0) = Inl (''unable to '' @ rest)"
    using main_derive_Inl [of L rootKey "(BIP0043Purpose, KeyFamilyNodeKey)" err
        "(KeyScopeBIP0084_Purpose, 0)" "(KeyScopeBIP0049Plus_Purpose, 0)"]
    by auto
  then show ?thesis
    by (simp add: main_decrypt [OF assms(1,2)] assms(3) root Fatalf_def)
  qed
qed

text \<open>
  Claim C1, witness: on the instance whose child derivations fail, the first derivation
  of the node key fails.
\<close>

theorem failure_leaves_birthday_line_witness:
  "toyMnemonic \<noteq> [] \<and> length (Split toyMnemonic) = NummnemonicWords \<and>
   ToCipherSeed toyAezeed (Split toyMnemonic) (bytesOfString []) = Inr toyCipherSeed \<and>
   NewMaster (specLib badTweakPrims) (Entropy toyCipherSeed) MainNetParams = Inr toyMaster \<and>
   deriveFirstKey (specLib badTweakPrims) toyMaster BIP0043Purpose KeyFamilyNodeKey =
     Inl (Errorf ''unable to derive purpose key; '' InvalidTweak) \<and>
   (\<exists>rest. main (specLib badTweakPrims) toyAezeed toyMnemonic [] =
      \<lparr>stdout = [birthdayLine toyAezeed toyCipherSeed],
       stderr = [''unable to '' @ rest @ newline], exit_code = 1\<rparr>)"
proof -
  have a: "toyMnemonic \<noteq> []"
    by (simp add: toyMnemonic_def)
  have c: "ToCipherSeed toyAezeed (Split toyMnemonic) (bytesOfString []) = Inr toyCipherSeed"
    by (simp add: toyAezeed_def)
  have d: "NewMaster (specLib badTweakPrims) (Entropy toyCipherSeed) MainNetParams =
        Inl (Errorf ''unable to derive purpose key; '' InvalidTweak) \<or>
      (\<exists>rootKey. NewMaster (specLib badTweakPrims) (Entropy toyCipherSeed) MainNetParams =
           Inr rootKey \<and>
         (deriveFirstKey (specLib badTweakPrims) rootKey BIP0043Purpose KeyFamilyNodeKey =
            Inl (Errorf ''unable to derive purpose key; '' InvalidTweak) \<or>
          deriveFirstKey (specLib badTweakPrims) rootKey KeyScopeBIP0084_Purpose 0 =
            Inl (Errorf ''unable to derive purpose key; '' InvalidTweak) \<or>
          (\<exists>key. deriveFirstKey (specLib badTweakPrims) rootKey KeyScopeBIP0084_Purpose 0 =
               Inr key \<and>
             keyToP2wkhAddr (specLib badTweakPrims) key =
               Inl (Errorf ''unable to derive purpose key; '' InvalidTweak)) \<or>
          deriveFirstKey (specLib badTweakPrims) rootKey KeyScopeBIP0049Plus_Purpose 0 =
            Inl (Errorf ''unable to derive purpose key; '' InvalidTweak) \<or>
          (\<exists>key. deriveFirstKey (specLib badTweakPrims) rootKey KeyScopeBIP0049Plus_Purpose 0 =
               Inr key \<and>
             keyToNp2wkhAddr (specLib badTweakPrims) key =
               Inl (Errorf ''unable to derive purpose key; '' InvalidTweak))))"
    using badTweak_NewMaster badTweak_nodeKey by blast
  show ?thesis
    using a toy_word_count c badTweak_NewMaster badTweak_nodeKey
      failure_leaves_birthday_line [OF a toy_word_count c d]
    by blast
qed

text \<open>
  Claim C1, counterexample to the claim as stated: the same run fails and exits with
  status 1, and the wallet-birthday line is on standard output before the failure.
\<close>

theorem partial_report_counterexample:
  "main (specLib badTweakPrims) toyAezeed toyMnemonic [] =
     \<lparr>stdout = [''Wallet Birthday: 1552673705, Internal Version: 0'' @ newline],
      stderr = [''unable to derive node key: unable to derive purpose key; InvalidTweak'' @
        newline],
      exit_code = 1\<rparr>"
proof -
  have a: "toyMnemonic \<noteq> []"
    by (simp add: toyMnemonic_def)
  have c: "ToCipherSeed toyAezeed (Split toyMnemonic) (bytesOfString []) = Inr toyCipherSeed"
    by (simp add: toyAezeed_def)
  show ?thesis
    by (simp add: main_decrypt [OF a toy_word_count] c badTweak_NewMaster main_derive_def
        badTweak_nodeKey Fatalf_def toy_birthdayLine)
qed

subsection \<open>The report of a successful run\<close>

text \<open>
  Claim C8, as amended. On a successful run the program prints exactly four lines, in
  this order, and nothing on standard error, and exits with status 0: the wallet
  birthday and internal version as the cipher-seed recovery gave them; the node public
  key as the lowercase hexadecimal text of its 33-byte compressed serialization, 66
  digits; the native p2wkh address; the wrapped n2pwkh address. The labels of the second
  and the third line are followed by two spaces ("Node pub key:  ", "First p2wkh
  address:  "): \<^verbatim>\<open>Println\<close> puts a space between its operands and the label already
  ends with one. The label of the fourth line is followed by one space.
\<close>

theorem successful_run_report:
  assumes "mnemonic \<noteq> []" and "length (Split mnemonic) = NummnemonicWords"
    and "ToCipherSeed A (Split mnemonic) (bytesOfString aezeedPass) = Inr cipherSeed"
    and "NewMaster L (Entropy cipherSeed) MainNetParams = Inr rootKey"
    and "deriveFirstKey L rootKey BIP0043Purpose KeyFamilyNodeKey = Inr nodePub"
    and "deriveFirstKey L rootKey KeyScopeBIP0084_Purpose 0 = Inr firstP2wkhKey"
    and "keyToP2wkhAddr L firstP2wkhKey = Inr firstSegwitAddr"
    and "deriveFirstKey L rootKey KeyScopeBIP0049Plus_Purpose 0 = Inr firstNp2wkhKey"
    and "keyToNp2wkhAddr L firstNp2wkhKey = Inr firstNestedSegwitAddr"
    and "length (SerializeCompressed L nodePub) = 33"
  shows "main L A mnemonic aezeedPass =
     \<lparr>stdout =
        [''Wallet Birthday: '' @ TimeString A (BirthdayTime A cipherSeed) @
           '', Internal Version: '' @ showNat (unat (InternalVersion cipherSeed)) @ newline,
         ''Node pub key:  '' @ EncodeToString (SerializeCompressed L nodePub) @ newline,
         ''First p2wkh address:  '' @ EncodeAddress L firstSegwitAddr @ newline,
         ''First n2pwkh address '' @ EncodeAddress L firstNestedSegwitAddr @ newline],
      stderr = [], exit_code = 0\<rparr> \<and>
     set (EncodeToString (SerializeCompressed L nodePub)) \<subseteq> set ''0123456789abcdef'' \<and>
     length (EncodeToString (SerializeCompressed L nodePub)) = 66"
proof -
  have "main_derive L rootKey (BIP0043Purpose, KeyFamilyNodeKey) (KeyScopeBIP0084_Purpose, 0)
      (KeyScopeBIP0049Plus_Purpose, 0) =
      Inr (nodePub, firstP2wkhKey, firstSegwitAddr, firstNp2wkhKey, firstNestedSegwitAddr)"
    by (rule main_derive_Inr) (simp_all add: assms)
  then have "main L A mnemonic aezeedPass =
     \<lparr>stdout =
        [''Wallet Birthday: '' @ TimeString A (BirthdayTime A cipherSeed) @
           '', Internal Version: '' @ showNat (unat (InternalVersion cipherSeed)) @ newline,
         ''Node pub key:  '' @ EncodeToString (SerializeCompressed L nodePub) @ newline,
         ''First p2wkh address:  '' @ EncodeAddress L firstSegwitAddr @ newline,
         ''First n2pwkh address '' @ EncodeAddress L firstNestedSegwitAddr @ newline],
      stderr = [], exit_code = 0\<rparr>"
    by (simp add: main_decrypt [OF assms(1,2)] assms(3,4) birthdayLine_def)
  moreover have "length (EncodeToString (SerializeCompressed L nodePub)) = 66"
    by (simp add: length_EncodeToString assms(10))
  ultimately show ?thesis
    using EncodeToString_lowercase_hex by blast
qed

lemma toy_nodeKey_serialized:
  "SerializeCompressed (specLib toyPrims) (105, 0) = 2 # replicate 31 0 @ [105]"
  using toy_serializePoint [of 105] by (simp add: specLib_def)

text \<open>
  Claim C8, witness: the run of the small instance on a mnemonic of 24 words; the
  compressed serialization of its node key has 33 bytes.
\<close>

theorem successful_run_report_witness:
  "toyMnemonic \<noteq> [] \<and> length (Split toyMnemonic) = NummnemonicWords \<and>
   ToCipherSeed toyAezeed (Split toyMnemonic) (bytesOfString []) = Inr toyCipherSeed \<and>
   NewMaster (specLib toyPrims) (Entropy toyCipherSeed) MainNetParams = Inr toyMaster \<and>
   deriveFirstKey (specLib toyPrims) toyMaster BIP0043Purpose KeyFamilyNodeKey = Inr (105, 0) \<and>
   deriveFirstKey (specLib toyPrims) toyMaster KeyScopeBIP0084_Purpose 0 = Inr (62, 0) \<and>
   keyToP2wkhAddr (specLib toyPrims) (62, 0) =
     Inr (AddressWitnessPubKeyHash ''bc'' 0 (62 # replicate 19 0)) \<and>
   deriveFirstKey (specLib toyPrims) toyMaster KeyScopeBIP0049Plus_Purpose 0 = Inr (91, 0) \<and>
   keyToNp2wkhAddr (specLib toyPrims) (91, 0) =
     Inr (AddressScriptHash (replicate 19 0 @ [91]) 5) \<and>
   length (SerializeCompressed (specLib toyPrims) (105, 0)) = 33 \<and>
   length (EncodeToString (SerializeCompressed (specLib toyPrims) (105, 0))) = 66 \<and>
   main (specLib toyPrims) toyAezeed toyMnemonic [] =
     \<lparr>stdout =
        [''Wallet Birthday: '' @ TimeString toyAezeed (BirthdayTime toyAezeed toyCipherSeed) @
           '', Internal Version: '' @ showNat (unat (InternalVersion toyCipherSeed)) @ newline,
         ''Node pub key:  '' @
           EncodeToString (SerializeCompressed (specLib toyPrims) (105, 0)) @ newline,
         ''First p2wkh address:  '' @
           EncodeAddress (specLib toyPrims)
             (AddressWitnessPubKeyHash ''bc'' 0 (62 # replicate 19 0)) @ newline,
         ''First n2pwkh address '' @
           EncodeAddress (specLib toyPrims)
             (AddressScriptHash (replicate 19 0 @ [91]) 5) @ newline],
      stderr = [], exit_code = 0\<rparr>"
proof -
  have bytes: "length (SerializeCompressed (specLib toyPrims) (105, 0)) = 33"
    by (simp add: toy_nodeKey_serialized)
  show ?thesis
    using toyMnemonic_nonempty toy_word_count
      toy_ToCipherSeed [of "Split toyMnemonic" "bytesOfString []"]
      toy_NewMaster_main toy_nodeKey toy_p2wkhKey toy_keyToP2wkhAddr toy_np2wkhKey
      toy_keyToNp2wkhAddr bytes
      successful_run_report [OF toyMnemonic_nonempty toy_word_count toy_ToCipherSeed
        toy_NewMaster_main toy_nodeKey toy_p2wkhKey toy_keyToP2wkhAddr toy_np2wkhKey
        toy_keyToNp2wkhAddr bytes, of "[]"]
    by blast
qed

text \<open>
  Claim C8, counterexample to the label format as specified ("Node pub key: " and "First
  p2wkh address: " followed directly by the value): in the run of the small instance the
  second and the third line carry one more space.
\<close>

theorem report_label_counterexample:
  "stdout (main (specLib toyPrims) toyAezeed toyMnemonic []) ! 1 =
     ''Node pub key:  02'' @ concat (replicate 31 ''00'') @ ''69'' @ newline \<and>
   stdout (main (specLib toyPrims) toyAezeed toyMnemonic []) ! 1 \<noteq>
     ''Node pub key: '' @
       EncodeToString (SerializeCompressed (specLib toyPrims) (105, 0)) @ newline \<and>
   stdout (main (specLib toyPrims) toyAezeed toyMnemonic []) ! 2 \<noteq>
     ''First p2wkh address: '' @
       EncodeAddress (specLib toyPrims)
         (AddressWitnessPubKeyHash ''bc'' 0 (62 # replicate 19 0)) @ newline"
proof -
  have addr: "EncodeAddress (specLib toyPrims)
      (AddressWitnessPubKeyHash ''bc'' 0 (62 # replicate 19 0)) =
      ''bc1'' @ EncodeToString (0 # 62 # replicate 19 0)"
    by (simp add: specLib_def EncodeAddress_spec_def toyPrims_def)
  show ?thesis
    by (simp add: main_decrypt [OF toyMnemonic_nonempty toy_word_count] toy_ToCipherSeed
        toy_NewMaster_main toy_main_derive toy_hex_key addr del: replicate.simps)
qed

subsection \<open>The mnemonic flag\<close>

text \<open>
  Claim C10. An empty mnemonic flag prints the flag defaults (on standard error, where
  the flag package writes them) and exits with status 0 and an empty standard output.
  Otherwise the flag is split at every single space: a text of space-free words with
  one space after each but the last splits into exactly these words, and the number of
  pieces is one more than the number of spaces. Unless that number is
  \<open>NummnemonicWords = 24\<close>, the run ends with the word-count message and status 1; this
  outcome refers to neither the cipher-seed recovery nor the library, so nothing was
  decrypted or derived. With 24 pieces the recovery is called on exactly these pieces.
\<close>

theorem mnemonic_word_count_check:
  "main L A [] aezeedPass = \<lparr>stdout = [], stderr = [PrintDefaults], exit_code = 0\<rparr> \<and>
   (mnemonic \<noteq> [] \<and> length (Split mnemonic) \<noteq> NummnemonicWords \<longrightarrow>
      main L A mnemonic aezeedPass =
        \<lparr>stdout = [],
         stderr = [''expected 24 words, instead got '' @ showNat (length (Split mnemonic)) @
           newline],
         exit_code = 1\<rparr>) \<and>
   (mnemonic \<noteq> [] \<and> length (Split mnemonic) = NummnemonicWords \<longrightarrow>
      (\<forall>err. ToCipherSeed A (Split mnemonic) (bytesOfString aezeedPass) = Inl err \<longrightarrow>
         main L A mnemonic aezeedPass =
           \<lparr>stdout = [],
            stderr = [''unable to decrypt cipher seed: '' @ Error err @ newline],
            exit_code = 1\<rparr>) \<and>
      (\<forall>cs. ToCipherSeed A (Split mnemonic) (bytesOfString aezeedPass) = Inr cs \<longrightarrow>
         stdout (main L A mnemonic aezeedPass) \<noteq> [] \<and>
         hd (stdout (main L A mnemonic aezeedPass)) = birthdayLine A cs)) \<and>
   NummnemonicWords = 24 \<and>
   length (Split mnemonic) = Suc (count_list mnemonic (CHR '' '')) \<and>
   (\<forall>ws w. (\<forall>x \<in> set (w # ws). CHR '' '' \<notin> set x) \<longrightarrow>
      Split (concat (map (\<lambda>x. x @ '' '') ws) @ w) = ws @ [w])"
proof (intro conjI impI allI)
  show "main L A [] aezeedPass = \<lparr>stdout = [], stderr = [PrintDefaults], exit_code = 0\<rparr>"
    by (rule main_empty)
next
  assume "mnemonic \<noteq> [] \<and> length (Split mnemonic) \<noteq> NummnemonicWords"
  then show "main L A mnemonic aezeedPass =
        \<lparr>stdout = [],
         stderr = [''expected 24 words, instead got '' @ showNat (length (Split mnemonic)) @
           newline],
         exit_code = 1\<rparr>"
    by (simp add: main_word_count showNat_NummnemonicWords Fatalf_def)
next
  fix err
  assume "mnemonic \<noteq> [] \<and> length (Split mnemonic) = NummnemonicWords"
    and "ToCipherSeed A (Split mnemonic) (bytesOfString aezeedPass) = Inl err"
  then show "main L A mnemonic aezeedPass =
           \<lparr>stdout = [],
            stderr = [''unable to decrypt cipher seed: '' @ Error err @ newline],
            exit_code = 1\<rparr>"
    by (simp add: main_decrypt Fatalf_def)
next
  fix cs
  assume "mnemonic \<noteq> [] \<and> length (Split mnemonic) = NummnemonicWords"
    and "ToCipherSeed A (Split mnemonic) (bytesOfString aezeedPass) = Inr cs"
  then have run: "main L A mnemonic aezeedPass =
      (case NewMaster L (Entropy cs) MainNetParams of
         Inl err \<Rightarrow> Fatalf [birthdayLine A cs] (''unable to make HD priv root: '' @ Error err)
       | Inr rootKey \<Rightarrow>
           (case main_derive L rootKey (BIP0043Purpose, KeyFamilyNodeKey)
                   (KeyScopeBIP0084_Purpose, 0) (KeyScopeBIP0049Plus_Purpose, 0) of
              Inl msg \<Rightarrow> Fatalf [birthdayLine A cs] msg
            | Inr (nodePub, firstP2wkhKey, firstSegwitAddr, firstNp2wkhKey,
                   firstNestedSegwitAddr) \<Rightarrow>
                \<lparr>stdout =
                   [birthdayLine A cs,
                    Println [''Node pub key: '', EncodeToString (SerializeCompressed L nodePub)],
                    Println [''First p2wkh address: '', EncodeAddress L firstSegwitAddr],
                    Println [''First n2pwkh address'', EncodeAddress L firstNestedSegwitAddr]],
                 stderr = [], exit_code = 0\<rparr>))"
    by (simp add: main_decrypt)
  show "stdout (main L A mnemonic aezeedPass) \<noteq> []"
    unfolding run by (simp add: Fatalf_def split: sum.splits prod.splits)
  show "hd (stdout (main L A mnemonic aezeedPass)) = birthdayLine A cs"
    unfolding run by (simp add: Fatalf_def split: sum.splits prod.splits)
next
  show "NummnemonicWords = 24"
    by (rule NummnemonicWords_def)
next
  show "length (Split mnemonic) = Suc (count_list mnemonic (CHR '' ''))"
    by (simp add: Split_def length_genSplit)
next
  fix ws w
  assume "\<forall>x \<in> set (w # ws). CHR '' '' \<notin> set x"
  then show "Split (concat (map (\<lambda>x. x @ '' '') ws) @ w) = ws @ [w]"
    unfolding Split_def by (rule genSplit_words)
qed

text \<open>
  Claim C10, witness: a flag of two words ends with the word-count message; a flag of 24
  words reaches the cipher-seed recovery, whose failure ends the run and whose success
  is followed by the birthday line.
\<close>

theorem mnemonic_word_count_check_witness:
  "''a b'' \<noteq> [] \<and> length (Split ''a b'') \<noteq> NummnemonicWords \<and>
   main (specLib toyPrims) toyAezeed ''a b'' [] =
     \<lparr>stdout = [], stderr = [''expected 24 words, instead got 2'' @ newline],
      exit_code = 1\<rparr> \<and>
   toyMnemonic \<noteq> [] \<and> length (Split toyMnemonic) = NummnemonicWords \<and>
   ToCipherSeed toyAezeed (Split toyMnemonic) (bytesOfString []) = Inr toyCipherSeed \<and>
   hd (stdout (main (specLib toyPrims) toyAezeed toyMnemonic [])) =
     birthdayLine toyAezeed toyCipherSeed \<and>
   ToCipherSeed (toyAezeed\<lparr>ToCipherSeed := \<lambda>words password. Inl DecryptError\<rparr>)
     (Split toyMnemonic) (bytesOfString []) = Inl DecryptError \<and>
   main (specLib toyPrims) (toyAezeed\<lparr>ToCipherSeed := \<lambda>words password. Inl DecryptError\<rparr>)
       toyMnemonic [] =
     \<lparr>stdout = [], stderr = [''unable to decrypt cipher seed: DecryptError'' @ newline],
      exit_code = 1\<rparr> \<and>
   CHR '' '' \<notin> set ''a'' \<and> CHR '' '' \<notin> set ''b'' \<and>
   Split ''a b'' = [''a'', ''b'']"
proof -
  have two: "''a b'' \<noteq> [] \<and> length (Split ''a b'') \<noteq> NummnemonicWords"
    by (simp add: Split_def NummnemonicWords_def)
  have two_digits: "showNat (length (Split ''a b'')) = ''2''"
    by (simp add: Split_def showNat_digit)
  have full: "toyMnemonic \<noteq> [] \<and> length (Split toyMnemonic) = NummnemonicWords"
    by (simp add: toy_word_count) (simp add: toyMnemonic_def)
  have ok: "ToCipherSeed toyAezeed (Split toyMnemonic) (bytesOfString []) = Inr toyCipherSeed"
    by (simp add: toyAezeed_def)
  have bad: "ToCipherSeed (toyAezeed\<lparr>ToCipherSeed := \<lambda>words password. Inl DecryptError\<rparr>)
      (Split toyMnemonic) (bytesOfString []) = Inl DecryptError"
    by simp
  have words: "\<forall>x \<in> set [''b'', ''a'']. CHR '' '' \<notin> set x"
    by simp
  have joined: "concat (map (\<lambda>x. x @ '' '') [''a'']) @ ''b'' = ''a b''"
    by simp
  note check = mnemonic_word_count_check [where L = "specLib toyPrims" and aezeedPass = "[]"]
  have "main (specLib toyPrims) toyAezeed ''a b'' [] =
     \<lparr>stdout = [], stderr = [''expected 24 words, instead got 2'' @ newline],
      exit_code = 1\<rparr>"
    using check [of toyAezeed "''a b''"] two two_digits by simp
  moreover have "hd (stdout (main (specLib toyPrims) toyAezeed toyMnemonic [])) =
      birthdayLine toyAezeed toyCipherSeed"
    using check [of toyAezeed toyMnemonic] full ok by blast
  moreover have "main (specLib toyPrims)
      (toyAezeed\<lparr>ToCipherSeed := \<lambda>words password. Inl DecryptError\<rparr>) toyMnemonic [] =
     \<lparr>stdout = [], stderr = [''unable to decrypt cipher seed: DecryptError'' @ newline],
      exit_code = 1\<rparr>"
    using check [of "toyAezeed\<lparr>ToCipherSeed := \<lambda>words password. Inl DecryptError\<rparr>"
        toyMnemonic] full bad
    by simp
  moreover have "Split ''a b'' = [''a'', ''b'']"
    using check [of toyAezeed "[]"] words joined by (metis append_Cons append_Nil)
  ultimately show ?thesis
    using two full ok bad by simp
qed

subsection \<open>Determinism and path independence\<close>

lemma deriveAccountKey_cong:
  "Child L = Child L' \<Longrightarrow>
   deriveAccountKey L rootKey purpose keyFamily = deriveAccountKey L' rootKey purpose keyFamily"
  by (simp add: deriveAccountKey_def cong: sum.case_cong)

lemma deriveFirstKey_cong:
  "Child L = Child L' \<Longrightarrow> ECPubKey L = ECPubKey L' \<Longrightarrow>
   deriveFirstKey L rootKey purpose keyFamily = deriveFirstKey L' rootKey purpose keyFamily"
  by (simp add: deriveFirstKey_def deriveAccountKey_cong [of L L'] cong: sum.case_cong)

lemma mainNetOnlyLib_same: "sameOnMainNet (specLib toyPrims) mainNetOnlyLib"
  by (simp add: sameOnMainNet_def mainNetOnlyLib_def specLib_def)

text \<open>
  The path deriver with state against the path deriver over key values. When the
  library with state implements \<open>L\<close>, each of \<open>deriveAccountKeyS\<close>,
  \<open>deriveFirstKeyS\<close> and the derivation block keeps the keys and returns what its
  counterpart over \<open>L\<close> returns on the key held by the root reference.
\<close>

lemma keepsKeys_refl: "keepsKeys view s s"
  by (simp add: keepsKeys_def)

lemma keepsKeys_trans:
  "keepsKeys view s t \<Longrightarrow> keepsKeys view t u \<Longrightarrow> keepsKeys view s u"
  by (simp add: keepsKeys_def)

lemma keepsKeys_live: "keepsKeys view s t \<Longrightarrow> view s k = Some key \<Longrightarrow> view t k = Some key"
  by (simp add: keepsKeys_def)

lemma ChildS_Inl:
  assumes "implements LS L view" and "view s k = Some key"
    and "ChildS LS k i s = (Inl err, s')"
  shows "Child L key i = Inl err \<and> keepsKeys view s s'"
proof -
  from assms(1,2) have "keepsKeys view s (snd (ChildS LS k i s)) \<and>
      sameResult view (snd (ChildS LS k i s)) (fst (ChildS LS k i s)) (Child L key i)"
    unfolding implements_def by blast
  then show ?thesis
    by (simp add: assms(3) sameResult_def)
qed

lemma ChildS_Inr:
  assumes "implements LS L view" and "view s k = Some key"
    and "ChildS LS k i s = (Inr c, s')"
  shows "\<exists>child. Child L key i = Inr child \<and> view s' c = Some child \<and> keepsKeys view s s'"
proof -
  from assms(1,2) have "keepsKeys view s (snd (ChildS LS k i s)) \<and>
      sameResult view (snd (ChildS LS k i s)) (fst (ChildS LS k i s)) (Child L key i)"
    unfolding implements_def by blast
  then show ?thesis
    by (simp add: assms(3) sameResult_def split: option.splits)
qed

lemma ECPubKeyS_step:
  assumes "implements LS L view" and "view s k = Some key"
  shows "fst (ECPubKeyS LS k s) = ECPubKey L key \<and> keepsKeys view s (snd (ECPubKeyS LS k s))"
  using assms unfolding implements_def by blast

lemma deriveAccountKeyS_refines:
  assumes I: "implements LS L view" and live: "view s rootKey = Some key"
  shows "keepsKeys view s (snd (deriveAccountKeyS LS rootKey p f s)) \<and>
         sameResult view (snd (deriveAccountKeyS LS rootKey p f s))
           (fst (deriveAccountKeyS LS rootKey p f s)) (deriveAccountKey L key p f)"
proof -
  obtain r1 s1 where c1: "ChildS LS rootKey (p + HardenedKeyStart) s = (r1, s1)"
    by (cases "ChildS LS rootKey (p + HardenedKeyStart) s")
  show ?thesis
  proof (cases r1)
    case (Inl err)
    with ChildS_Inl [OF I live] c1 show ?thesis
      by (simp add: deriveAccountKeyS_def deriveAccountKey_def sameResult_def)
  next
    case (Inr k1)
    with ChildS_Inr [OF I live] c1 obtain key1
      where p1: "Child L key (p + HardenedKeyStart) = Inr key1"
        and l1: "view s1 k1 = Some key1" and f1: "keepsKeys view s s1"
      by blast
    obtain r2 s2 where c2: "ChildS LS k1 (CoinTypeBitcoin + HardenedKeyStart) s1 = (r2, s2)"
      by (cases "ChildS LS k1 (CoinTypeBitcoin + HardenedKeyStart) s1")
    show ?thesis
    proof (cases r2)
      case (Inl err)
      with ChildS_Inl [OF I l1] c2 have "Child L key1 (CoinTypeBitcoin + HardenedKeyStart) = Inl err"
        and "keepsKeys view s1 s2"
        by blast+
      with f1 show ?thesis
        using keepsKeys_trans [of view s s1 s2]
        by (simp add: deriveAccountKeyS_def deriveAccountKey_def sameResult_def c1 c2 p1
            \<open>r1 = Inr k1\<close> Inl)
    next
      case r2: (Inr k2)
      with ChildS_Inr [OF I l1] c2 obtain key2
        where p2: "Child L key1 (CoinTypeBitcoin + HardenedKeyStart) = Inr key2"
          and l2: "view s2 k2 = Some key2" and f2: "keepsKeys view s1 s2"
        by blast
      obtain r3 s3 where c3: "ChildS LS k2 (f + HardenedKeyStart) s2 = (r3, s3)"
        by (cases "ChildS LS k2 (f + HardenedKeyStart) s2")
      have f02: "keepsKeys view s s2"
        using f1 f2 by (rule keepsKeys_trans)
      show ?thesis
      proof (cases r3)
        case (Inl err)
        with ChildS_Inl [OF I l2] c3 have "Child L key2 (f + HardenedKeyStart) = Inl err"
          and "keepsKeys view s2 s3"
          by blast+
        with f02 show ?thesis
          using keepsKeys_trans [of view s s2 s3]
          by (simp add: deriveAccountKeyS_def deriveAccountKey_def sameResult_def c1 c2 c3 p1 p2
              \<open>r1 = Inr k1\<close> r2 Inl)
      next
        case r3: (Inr k3)
        with ChildS_Inr [OF I l2] c3 obtain key3
          where p3: "Child L key2 (f + HardenedKeyStart) = Inr key3"
            and l3: "view s3 k3 = Some key3" and f3: "keepsKeys view s2 s3"
          by blast
        with f02 show ?thesis
          using keepsKeys_trans [of view s s2 s3]
          by (simp add: deriveAccountKeyS_def deriveAccountKey_def sameResult_def c1 c2 c3 p1 p2
              \<open>r1 = Inr k1\<close> r2 r3)
      qed
    qed
  qed
qed


lemma deriveFirstKeyS_refines:
  assumes I: "implements LS L view" and live: "view s rootKey = Some key"
  shows "keepsKeys view s (snd (deriveFirstKeyS LS rootKey p f s)) \<and>
         fst (deriveFirstKeyS LS rootKey p f s) = deriveFirstKey L key p f"
proof -
  obtain r0 s0 where c0: "deriveAccountKeyS LS rootKey p f s = (r0, s0)"
    by (cases "deriveAccountKeyS LS rootKey p f s")
  from deriveAccountKeyS_refines [OF I live, of p f] c0
  have f0: "keepsKeys view s s0" and v0: "sameResult view s0 r0 (deriveAccountKey L key p f)"
    by simp_all
  show ?thesis
  proof (cases r0)
    case (Inl err)
    with v0 f0 show ?thesis
      by (simp add: deriveFirstKeyS_def deriveFirstKey_def sameResult_def c0)
  next
    case r0: (Inr k0)
    with v0 obtain key0 where p0: "deriveAccountKey L key p f = Inr key0"
      and l0: "view s0 k0 = Some key0"
      by (auto simp: sameResult_def split: option.splits)
    obtain r1 s1 where c1: "ChildS LS k0 0 s0 = (r1, s1)"
      by (cases "ChildS LS k0 0 s0")
    show ?thesis
    proof (cases r1)
      case (Inl err)
      with ChildS_Inl [OF I l0] c1 have "Child L key0 0 = Inl err" and "keepsKeys view s0 s1"
        by blast+
      with f0 show ?thesis
        using keepsKeys_trans [of view s s0 s1]
        by (simp add: deriveFirstKeyS_def deriveFirstKey_def c0 c1 p0 r0 Inl)
    next
      case r1: (Inr k1)
      with ChildS_Inr [OF I l0] c1 obtain key1
        where p1: "Child L key0 0 = Inr key1"
          and l1: "view s1 k1 = Some key1" and f1: "keepsKeys view s0 s1"
        by blast
      have f01: "keepsKeys view s s1"
        using f0 f1 by (rule keepsKeys_trans)
      obtain r2 s2 where c2: "ChildS LS k1 0 s1 = (r2, s2)"
        by (cases "ChildS LS k1 0 s1")
      show ?thesis
      proof (cases r2)
        case (Inl err)
        with ChildS_Inl [OF I l1] c2 have "Child L key1 0 = Inl err" and "keepsKeys view s1 s2"
          by blast+
        with f01 show ?thesis
          using keepsKeys_trans [of view s s1 s2]
          by (simp add: deriveFirstKeyS_def deriveFirstKey_def c0 c1 c2 p0 p1 r0 r1 Inl)
      next
        case r2: (Inr k2)
        with ChildS_Inr [OF I l1] c2 obtain key2
          where p2: "Child L key1 0 = Inr key2"
            and l2: "view s2 k2 = Some key2" and f2: "keepsKeys view s1 s2"
          by blast
        have f02: "keepsKeys view s s2"
          using f01 f2 by (rule keepsKeys_trans)
        from ECPubKeyS_step [OF I l2]
        have "fst (ECPubKeyS LS k2 s2) = ECPubKey L key2"
          and "keepsKeys view s2 (snd (ECPubKeyS LS k2 s2))"
          by simp_all
        with f02 show ?thesis
          using keepsKeys_trans [of view s s2 "snd (ECPubKeyS LS k2 s2)"]
          by (simp add: deriveFirstKeyS_def deriveFirstKey_def c0 c1 c2 p0 p1 p2 r0 r1 r2)
      qed
    qed
  qed
qed

lemma main_deriveS_refines:
  assumes I: "implements LS L view" and live: "view s rootKey = Some key"
  shows "fst (main_deriveS LS L rootKey nodePath p2wkhPath np2wkhPath s) =
         main_derive L key nodePath p2wkhPath np2wkhPath"
proof -
  obtain r1 s1 where c1: "deriveFirstKeyS LS rootKey (fst nodePath) (snd nodePath) s = (r1, s1)"
    by (cases "deriveFirstKeyS LS rootKey (fst nodePath) (snd nodePath) s")
  from deriveFirstKeyS_refines [OF I live, of "fst nodePath" "snd nodePath"] c1
  have f1: "keepsKeys view s s1"
    and v1: "deriveFirstKey L key (fst nodePath) (snd nodePath) = r1"
    by simp_all
  have l1: "view s1 rootKey = Some key"
    using f1 live by (rule keepsKeys_live)
  obtain r2 s2 where c2: "deriveFirstKeyS LS rootKey (fst p2wkhPath) (snd p2wkhPath) s1 = (r2, s2)"
    by (cases "deriveFirstKeyS LS rootKey (fst p2wkhPath) (snd p2wkhPath) s1")
  from deriveFirstKeyS_refines [OF I l1, of "fst p2wkhPath" "snd p2wkhPath"] c2
  have f2: "keepsKeys view s1 s2"
    and v2: "deriveFirstKey L key (fst p2wkhPath) (snd p2wkhPath) = r2"
    by simp_all
  have l2: "view s2 rootKey = Some key"
    using f2 l1 by (rule keepsKeys_live)
  obtain r3 s3 where c3: "deriveFirstKeyS LS rootKey (fst np2wkhPath) (snd np2wkhPath) s2 = (r3, s3)"
    by (cases "deriveFirstKeyS LS rootKey (fst np2wkhPath) (snd np2wkhPath) s2")
  from deriveFirstKeyS_refines [OF I l2, of "fst np2wkhPath" "snd np2wkhPath"] c3
  have v3: "deriveFirstKey L key (fst np2wkhPath) (snd np2wkhPath) = r3"
    by simp
  show ?thesis
    by (simp add: main_deriveS_def main_derive_def c1 c2 c3 v1 v2 v3
        split: sum.splits prod.splits)
qed


text \<open>The library with state of the small instance implements its operations.\<close>

lemma toy_implements: "implements toyLibS (specLib toyPrims) toyView"
  unfolding implements_def
proof (intro conjI allI impI)
  fix s k key i
  assume live: "toyView s k = Some key"
  show "keepsKeys toyView s (snd (ChildS toyLibS k i s))"
    using live
    by (auto simp: keepsKeys_def toyLibS_def toyView_def nth_append
        split: sum.splits if_splits)
  show "sameResult toyView (snd (ChildS toyLibS k i s)) (fst (ChildS toyLibS k i s))
      (Child (specLib toyPrims) key i)"
    using live
    by (auto simp: sameResult_def toyLibS_def toyView_def split: sum.splits if_splits)
next
  fix s k key
  assume live: "toyView s k = Some key"
  show "keepsKeys toyView s (snd (ECPubKeyS toyLibS k s))"
    using live by (auto simp: keepsKeys_def toyLibS_def toyView_def split: if_splits)
  show "fst (ECPubKeyS toyLibS k s) = ECPubKey (specLib toyPrims) key"
    using live by (simp add: toyLibS_def)
qed

lemma toy_root_live: "toyView toyState0 0 = Some toyMaster"
  by (simp add: toyView_def toyState0_def)

lemma toy_ChildS_twice:
  "fst (ChildS toyLibS 0 0 toyState0) = Inr 1 \<and>
   fst (ChildS toyLibS 0 0 (snd (ChildS toyLibS 0 0 toyState0))) = Inr 2"
proof -
  have m: "keyMaterial toyMaster = Private 37" "(37 :: nat) < 65000"
    "length (chainCode toyMaster) = 32"
    by (simp_all add: toyMaster_def)
  obtain c where c: "Child (specLib toyPrims) toyMaster 0 = Inr c"
    using toy_Child_private_step [OF m, of 0] by (auto simp: specLib_def)
  show ?thesis
    by (simp add: toyLibS_def toyView_def toyState0_def c)
qed

text \<open>
  Claim C5. Let the library be one with state that implements \<open>Child\<close> and
  \<open>ECPubKey\<close> of \<open>L\<close>, and let the root reference hold the key \<open>key\<close>. Then a second
  invocation of \<open>deriveFirstKeyS\<close> on the same root, purpose and key family, made in
  the state that the first invocation left, returns what the first returned: the same
  public key (hence the same compressed serialization) or the same error. So does an
  invocation made in any other state in which the root holds that key. The result is
  that of \<open>deriveFirstKey\<close> over \<open>L\<close> on the key held by the root: the state of the
  library, which the five derivations and the reading of the public key pass on and
  may change, does not enter it.
\<close>

theorem deriveFirstKeyS_deterministic:
  assumes "implements LS L view" and "view s rootKey = Some key"
  shows "fst (deriveFirstKeyS LS rootKey purpose keyFamily
                (snd (deriveFirstKeyS LS rootKey purpose keyFamily s))) =
           fst (deriveFirstKeyS LS rootKey purpose keyFamily s) \<and>
         (\<forall>t. view t rootKey = Some key \<longrightarrow>
            fst (deriveFirstKeyS LS rootKey purpose keyFamily t) =
              fst (deriveFirstKeyS LS rootKey purpose keyFamily s)) \<and>
         fst (deriveFirstKeyS LS rootKey purpose keyFamily s) =
           deriveFirstKey L key purpose keyFamily"
proof -
  note first = deriveFirstKeyS_refines [OF assms, of purpose keyFamily]
  have later: "fst (deriveFirstKeyS LS rootKey purpose keyFamily t) =
      deriveFirstKey L key purpose keyFamily" if "view t rootKey = Some key" for t
    using deriveFirstKeyS_refines [OF assms(1) that, of purpose keyFamily] by simp
  have "view (snd (deriveFirstKeyS LS rootKey purpose keyFamily s)) rootKey = Some key"
    using first assms(2) by (blast intro: keepsKeys_live)
  then show ?thesis
    using first later by simp
qed

text \<open>
  Claim C5, witness: the library with state of the small instance. Its answers depend
  on its state (the same call, repeated, returns another reference), and the two
  invocations on the BIP84 path return the same key.
\<close>

theorem deriveFirstKeyS_deterministic_witness:
  "implements toyLibS (specLib toyPrims) toyView \<and>
   toyView toyState0 0 = Some toyMaster \<and>
   fst (ChildS toyLibS 0 0 toyState0) = Inr 1 \<and>
   fst (ChildS toyLibS 0 0 (snd (ChildS toyLibS 0 0 toyState0))) = Inr 2 \<and>
   fst (deriveFirstKeyS toyLibS 0 KeyScopeBIP0084_Purpose 0 toyState0) = Inr (62, 0) \<and>
   fst (deriveFirstKeyS toyLibS 0 KeyScopeBIP0084_Purpose 0
          (snd (deriveFirstKeyS toyLibS 0 KeyScopeBIP0084_Purpose 0 toyState0))) =
     Inr (62, 0)"
  using toy_implements toy_root_live toy_ChildS_twice toy_p2wkhKey
    deriveFirstKeyS_deterministic [OF toy_implements toy_root_live,
      of KeyScopeBIP0084_Purpose 0]
  by simp

text \<open>
  Claim C6. Let the library be one with state that implements \<open>Child\<close> and
  \<open>ECPubKey\<close> of \<open>L\<close>. Take two successful runs of the derivation block of \<open>main\<close>
  on the same root reference, each with its own three (purpose, key family) pairs, from
  two states in which the root holds the same key. Then a path that has the same pair
  in both runs has the same public key and the same address in both, whatever the
  pairs of the other two paths are and whatever state the derivations before it left:
  each key is \<open>deriveFirstKey\<close> over \<open>L\<close> of the key held by the root and of the pair
  of its own path.
\<close>

theorem path_independence_shared_root:
  assumes "implements LS L view"
    and "view s rootKey = Some key" and "view t rootKey = Some key"
    and "fst (main_deriveS LS L rootKey nodePath p2wkhPath np2wkhPath s) =
           Inr (nodePub, firstP2wkhKey, firstSegwitAddr, firstNp2wkhKey,
                firstNestedSegwitAddr)"
    and "fst (main_deriveS LS L rootKey nodePath' p2wkhPath' np2wkhPath' t) =
           Inr (nodePub', firstP2wkhKey', firstSegwitAddr', firstNp2wkhKey',
                firstNestedSegwitAddr')"
  shows "(nodePath' = nodePath \<longrightarrow> nodePub' = nodePub) \<and>
         (p2wkhPath' = p2wkhPath \<longrightarrow>
            firstP2wkhKey' = firstP2wkhKey \<and> firstSegwitAddr' = firstSegwitAddr) \<and>
         (np2wkhPath' = np2wkhPath \<longrightarrow>
            firstNp2wkhKey' = firstNp2wkhKey \<and>
            firstNestedSegwitAddr' = firstNestedSegwitAddr) \<and>
         deriveFirstKey L key (fst nodePath) (snd nodePath) = Inr nodePub \<and>
         deriveFirstKey L key (fst p2wkhPath) (snd p2wkhPath) = Inr firstP2wkhKey \<and>
         deriveFirstKey L key (fst np2wkhPath) (snd np2wkhPath) = Inr firstNp2wkhKey"
proof -
  have one: "main_derive L key nodePath p2wkhPath np2wkhPath =
      Inr (nodePub, firstP2wkhKey, firstSegwitAddr, firstNp2wkhKey, firstNestedSegwitAddr)"
    using main_deriveS_refines [OF assms(1,2), of nodePath p2wkhPath np2wkhPath] assms(4)
    by simp
  have other: "main_derive L key nodePath' p2wkhPath' np2wkhPath' =
      Inr (nodePub', firstP2wkhKey', firstSegwitAddr', firstNp2wkhKey',
           firstNestedSegwitAddr')"
    using main_deriveS_refines [OF assms(1,3), of nodePath' p2wkhPath' np2wkhPath'] assms(5)
    by simp
  show ?thesis
    using one other unfolding main_derive_Inr_iff by auto
qed

lemma toy_keyToP2wkhAddr_small:
  assumes "v < 256"
  shows "keyToP2wkhAddr (specLib toyPrims) (int v, 0) =
     Inr (AddressWitnessPubKeyHash ''bc'' 0 (of_nat v # replicate 19 0))"
  by (simp add: keyToP2wkhAddr_def specLib_def toy_serializePoint [OF assms] toy_hash_key
      NewAddressWitnessPubKeyHash_spec_def MainNetParams_def)

lemma toy_keyToNp2wkhAddr_small:
  assumes "v < 256"
  shows "keyToNp2wkhAddr (specLib toyPrims) (int v, 0) =
     Inr (AddressScriptHash (replicate 19 0 @ [of_nat v]) 5)"
  by (simp add: keyToNp2wkhAddr_def specLib_def toy_serializePoint [OF assms] toy_hash_key
      toy_hash_script NewAddressWitnessPubKeyHash_spec_def PayToAddrScript_spec_def
      NewAddressScriptHash_spec_def MainNetParams_def)

text \<open>
  Claim C6, witness: in the run of the small instance, the pair (7, 3) is put in place of
  the pair of each path in turn; the key of that path becomes (52, 0) and the other two
  keys and addresses stay.
\<close>

theorem path_independence_shared_root_witness:
  "implements toyLibS (specLib toyPrims) toyView \<and>
   toyView toyState0 0 = Some toyMaster \<and>
   fst (main_deriveS toyLibS (specLib toyPrims) 0 (BIP0043Purpose, KeyFamilyNodeKey)
          (KeyScopeBIP0084_Purpose, 0) (KeyScopeBIP0049Plus_Purpose, 0) toyState0) =
     Inr ((105, 0), (62, 0), AddressWitnessPubKeyHash ''bc'' 0 (62 # replicate 19 0),
          (91, 0), AddressScriptHash (replicate 19 0 @ [91]) 5) \<and>
   fst (main_deriveS toyLibS (specLib toyPrims) 0 (7, 3)
          (KeyScopeBIP0084_Purpose, 0) (KeyScopeBIP0049Plus_Purpose, 0) toyState0) =
     Inr ((52, 0), (62, 0), AddressWitnessPubKeyHash ''bc'' 0 (62 # replicate 19 0),
          (91, 0), AddressScriptHash (replicate 19 0 @ [91]) 5) \<and>
   fst (main_deriveS toyLibS (specLib toyPrims) 0 (BIP0043Purpose, KeyFamilyNodeKey)
          (7, 3) (KeyScopeBIP0049Plus_Purpose, 0) toyState0) =
     Inr ((105, 0), (52, 0), AddressWitnessPubKeyHash ''bc'' 0 (52 # replicate 19 0),
          (91, 0), AddressScriptHash (replicate 19 0 @ [91]) 5) \<and>
   fst (main_deriveS toyLibS (specLib toyPrims) 0 (BIP0043Purpose, KeyFamilyNodeKey)
          (KeyScopeBIP0084_Purpose, 0) (7, 3) toyState0) =
     Inr ((105, 0), (62, 0), AddressWitnessPubKeyHash ''bc'' 0 (62 # replicate 19 0),
          (52, 0), AddressScriptHash (replicate 19 0 @ [52]) 5)"
proof -
  note refines = main_deriveS_refines [OF toy_implements toy_root_live]
  have key: "deriveFirstKey (specLib toyPrims) toyMaster 7 3 = Inr (52, 0)"
    by (simp add: toy_deriveFirstKey)
  have p2wkh: "keyToP2wkhAddr (specLib toyPrims) (52, 0) =
      Inr (AddressWitnessPubKeyHash ''bc'' 0 (52 # replicate 19 0))"
    using toy_keyToP2wkhAddr_small [of 52] by simp
  have np2wkh: "keyToNp2wkhAddr (specLib toyPrims) (52, 0) =
      Inr (AddressScriptHash (replicate 19 0 @ [52]) 5)"
    using toy_keyToNp2wkhAddr_small [of 52] by simp
  have std: "fst (main_deriveS toyLibS (specLib toyPrims) 0 (BIP0043Purpose, KeyFamilyNodeKey)
          (KeyScopeBIP0084_Purpose, 0) (KeyScopeBIP0049Plus_Purpose, 0) toyState0) =
     Inr ((105, 0), (62, 0), AddressWitnessPubKeyHash ''bc'' 0 (62 # replicate 19 0),
          (91, 0), AddressScriptHash (replicate 19 0 @ [91]) 5)"
    by (simp add: refines toy_main_derive)
  have n: "fst (main_deriveS toyLibS (specLib toyPrims) 0 (7, 3)
          (KeyScopeBIP0084_Purpose, 0) (KeyScopeBIP0049Plus_Purpose, 0) toyState0) =
     Inr ((52, 0), (62, 0), AddressWitnessPubKeyHash ''bc'' 0 (62 # replicate 19 0),
          (91, 0), AddressScriptHash (replicate 19 0 @ [91]) 5)"
    unfolding refines
    by (rule main_derive_Inr)
      (simp_all add: key toy_p2wkhKey toy_np2wkhKey toy_keyToP2wkhAddr toy_keyToNp2wkhAddr)
  have a: "fst (main_deriveS toyLibS (specLib toyPrims) 0 (BIP0043Purpose, KeyFamilyNodeKey)
          (7, 3) (KeyScopeBIP0049Plus_Purpose, 0) toyState0) =
     Inr ((105, 0), (52, 0), AddressWitnessPubKeyHash ''bc'' 0 (52 # replicate 19 0),
          (91, 0), AddressScriptHash (replicate 19 0 @ [91]) 5)"
    unfolding refines
    by (rule main_derive_Inr)
      (simp_all add: key p2wkh toy_nodeKey toy_np2wkhKey toy_keyToNp2wkhAddr)
  have b: "fst (main_deriveS toyLibS (specLib toyPrims) 0 (BIP0043Purpose, KeyFamilyNodeKey)
          (KeyScopeBIP0084_Purpose, 0) (7, 3) toyState0) =
     Inr ((105, 0), (62, 0), AddressWitnessPubKeyHash ''bc'' 0 (62 # replicate 19 0),
          (52, 0), AddressScriptHash (replicate 19 0 @ [52]) 5)"
    unfolding refines
    by (rule main_derive_Inr)
      (simp_all add: key np2wkh toy_nodeKey toy_p2wkhKey toy_keyToP2wkhAddr)
  show ?thesis
    using toy_implements toy_root_live std n a b
      path_independence_shared_root [OF toy_implements toy_root_live toy_root_live std n]
    by simp
qed

subsection \<open>Entropy of the wrong size\<close>

text \<open>
  Claim C7. Master-node construction from an entropy buffer that is not 16 bytes long
  fails with \<open>InvalidSeedLength\<close> and returns no key. In \<open>main\<close> this failure ends the
  run with the message of the master-key step: the outcome is fixed before any
  derivation is attempted, and no key or address line is printed.
\<close>

theorem short_entropy_rejected:
  assumes "length seed \<noteq> 16"
  shows "NewMaster_spec P seed net = Inl InvalidSeedLength \<and>
         (\<forall>A mnemonic aezeedPass cipherSeed.
            mnemonic \<noteq> [] \<and> length (Split mnemonic) = NummnemonicWords \<and>
            ToCipherSeed A (Split mnemonic) (bytesOfString aezeedPass) = Inr cipherSeed \<and>
            Entropy cipherSeed = seed \<longrightarrow>
            main (specLib P) A mnemonic aezeedPass =
              \<lparr>stdout = [birthdayLine A cipherSeed],
               stderr = [''unable to make HD priv root: InvalidSeedLength'' @ newline],
               exit_code = 1\<rparr>)"
proof (intro conjI allI impI)
  show first: "NewMaster_spec P seed net = Inl InvalidSeedLength" for net
    using assms by (simp add: NewMaster_spec_def)
  fix A :: aezeed and mnemonic aezeedPass and cipherSeed :: CipherSeed
  assume run: "mnemonic \<noteq> [] \<and> length (Split mnemonic) = NummnemonicWords \<and>
      ToCipherSeed A (Split mnemonic) (bytesOfString aezeedPass) = Inr cipherSeed \<and>
      Entropy cipherSeed = seed"
  then have "NewMaster (specLib P) (Entropy cipherSeed) MainNetParams = Inl InvalidSeedLength"
    by (simp add: specLib_def first)
  with run show "main (specLib P) A mnemonic aezeedPass =
      \<lparr>stdout = [birthdayLine A cipherSeed],
       stderr = [''unable to make HD priv root: InvalidSeedLength'' @ newline],
       exit_code = 1\<rparr>"
    by (simp add: main_decrypt Fatalf_def)
qed

text \<open>Claim C7, witness: a buffer of 15 bytes.\<close>

theorem short_entropy_rejected_witness:
  "length (replicate 15 (0 :: u8)) \<noteq> 16 \<and>
   NewMaster_spec toyPrims (replicate 15 0) MainNetParams = Inl InvalidSeedLength \<and>
   toyMnemonic \<noteq> [] \<and> length (Split toyMnemonic) = NummnemonicWords \<and>
   ToCipherSeed
     (toyAezeed\<lparr>ToCipherSeed :=
        \<lambda>words password. Inr (toyCipherSeed\<lparr>Entropy := replicate 15 0\<rparr>)\<rparr>)
     (Split toyMnemonic) (bytesOfString []) =
     Inr (toyCipherSeed\<lparr>Entropy := replicate 15 0\<rparr>) \<and>
   Entropy (toyCipherSeed\<lparr>Entropy := replicate 15 0\<rparr>) = replicate 15 0 \<and>
   main (specLib toyPrims)
     (toyAezeed\<lparr>ToCipherSeed :=
        \<lambda>words password. Inr (toyCipherSeed\<lparr>Entropy := replicate 15 0\<rparr>)\<rparr>)
     toyMnemonic [] =
     \<lparr>stdout =
        [birthdayLine
           (toyAezeed\<lparr>ToCipherSeed :=
              \<lambda>words password. Inr (toyCipherSeed\<lparr>Entropy := replicate 15 0\<rparr>)\<rparr>)
           (toyCipherSeed\<lparr>Entropy := replicate 15 0\<rparr>)],
      stderr = [''unable to make HD priv root: InvalidSeedLength'' @ newline],
      exit_code = 1\<rparr>"
proof -
  have short: "length (replicate 15 (0 :: u8)) \<noteq> 16"
    by simp
  have seed: "ToCipherSeed
     (toyAezeed\<lparr>ToCipherSeed :=
        \<lambda>words password. Inr (toyCipherSeed\<lparr>Entropy := replicate 15 0\<rparr>)\<rparr>)
     (Split toyMnemonic) (bytesOfString []) =
     Inr (toyCipherSeed\<lparr>Entropy := replicate 15 0\<rparr>)"
    and entropy: "Entropy (toyCipherSeed\<lparr>Entropy := replicate 15 0\<rparr>) = replicate 15 0"
    by simp_all
  show ?thesis
    using short seed entropy toyMnemonic_nonempty toy_word_count
      short_entropy_rejected [OF short, of toyPrims MainNetParams]
    by blast
qed

subsection \<open>The network\<close>

lemma keyToP2wkhAddr_same:
  "sameOnMainNet L L' \<Longrightarrow> keyToP2wkhAddr L key = keyToP2wkhAddr L' key"
  by (simp add: sameOnMainNet_def keyToP2wkhAddr_def)

lemma keyToNp2wkhAddr_same:
  "sameOnMainNet L L' \<Longrightarrow> keyToNp2wkhAddr L key = keyToNp2wkhAddr L' key"
  by (simp add: sameOnMainNet_def keyToNp2wkhAddr_def cong: sum.case_cong)

lemma main_derive_same:
  assumes "sameOnMainNet L L'"
  shows "main_derive L rootKey a b c = main_derive L' rootKey a b c"
proof -
  have "Child L = Child L'" and "ECPubKey L = ECPubKey L'"
    using assms by (simp_all add: sameOnMainNet_def)
  then have "deriveFirstKey L rootKey p f = deriveFirstKey L' rootKey p f" for p f
    by (rule deriveFirstKey_cong)
  then show ?thesis
    by (simp add: main_derive_def keyToP2wkhAddr_same [OF assms]
        keyToNp2wkhAddr_same [OF assms] cong: sum.case_cong)
qed

lemma main_same:
  assumes "sameOnMainNet L L'"
  shows "main L A mnemonic aezeedPass = main L' A mnemonic aezeedPass"
proof -
  have fields: "SerializeCompressed L = SerializeCompressed L'" "EncodeAddress L = EncodeAddress L'"
    "NewMaster L seed MainNetParams = NewMaster L' seed MainNetParams" for seed
    using assms by (simp_all add: sameOnMainNet_def)
  consider (empty) "mnemonic = []"
    | (count) "mnemonic \<noteq> []" "length (Split mnemonic) \<noteq> NummnemonicWords"
    | (run) "mnemonic \<noteq> []" "length (Split mnemonic) = NummnemonicWords"
    by blast
  then show ?thesis
  proof cases
    case empty
    then show ?thesis
      by (simp add: main_empty)
  next
    case count
    then show ?thesis
      by (simp add: main_word_count)
  next
    case run
    show ?thesis
      unfolding main_decrypt [OF run] fields main_derive_same [OF assms] ..
  qed
qed

lemma honoursNet_specLib: "honoursNet (specLib P)"
  by (auto simp: honoursNet_def specLib_def NewAddressWitnessPubKeyHash_spec_def
      NewAddressScriptHash_spec_def IsForNet_def Let_def split: if_splits)

text \<open>
  Claim C9. \<open>keyToP2wkhAddr\<close>, \<open>keyToNp2wkhAddr\<close> and the master-key construction in
  \<open>main\<close> take no network argument and pass the main network's parameters to every
  library operation that takes a network: two libraries that differ only away from the
  main network give the same addresses and the same run. With address constructors
  that build addresses of the network they are given (as the modelled ones do), both
  produced addresses are main-network addresses, for every public key.
\<close>

theorem mainnet_unconditional:
  "(sameOnMainNet L L' \<longrightarrow>
      keyToP2wkhAddr L key = keyToP2wkhAddr L' key \<and>
      keyToNp2wkhAddr L key = keyToNp2wkhAddr L' key \<and>
      main L A mnemonic aezeedPass = main L' A mnemonic aezeedPass) \<and>
   (honoursNet L \<longrightarrow>
      (\<forall>addr. keyToP2wkhAddr L key = Inr addr \<longrightarrow> IsForNet addr MainNetParams) \<and>
      (\<forall>addr. keyToNp2wkhAddr L key = Inr addr \<longrightarrow> IsForNet addr MainNetParams)) \<and>
   honoursNet (specLib P)"
proof (intro conjI impI allI)
  assume same: "sameOnMainNet L L'"
  show "keyToP2wkhAddr L key = keyToP2wkhAddr L' key"
    using same by (rule keyToP2wkhAddr_same)
  show "keyToNp2wkhAddr L key = keyToNp2wkhAddr L' key"
    using same by (rule keyToNp2wkhAddr_same)
  show "main L A mnemonic aezeedPass = main L' A mnemonic aezeedPass"
    using same by (rule main_same)
next
  fix addr
  assume "honoursNet L" and "keyToP2wkhAddr L key = Inr addr"
  then show "IsForNet addr MainNetParams"
    by (auto simp: honoursNet_def keyToP2wkhAddr_def)
next
  fix addr
  assume "honoursNet L" and "keyToNp2wkhAddr L key = Inr addr"
  then show "IsForNet addr MainNetParams"
    by (auto simp: honoursNet_def keyToNp2wkhAddr_def split: sum.splits)
next
  show "honoursNet (specLib P)"
    by (rule honoursNet_specLib)
qed

text \<open>
  Claim C9, witness: the small instance against its variant that fails away from the
  main network; the two addresses of the small instance are main-network addresses and
  not test-network ones.
\<close>

theorem mainnet_unconditional_witness:
  "sameOnMainNet (specLib toyPrims) mainNetOnlyLib \<and>
   keyToP2wkhAddr mainNetOnlyLib (62, 0) =
     Inr (AddressWitnessPubKeyHash ''bc'' 0 (62 # replicate 19 0)) \<and>
   keyToNp2wkhAddr mainNetOnlyLib (91, 0) = Inr (AddressScriptHash (replicate 19 0 @ [91]) 5) \<and>
   main mainNetOnlyLib toyAezeed toyMnemonic [] =
     main (specLib toyPrims) toyAezeed toyMnemonic [] \<and>
   honoursNet (specLib toyPrims) \<and>
   keyToP2wkhAddr (specLib toyPrims) (62, 0) =
     Inr (AddressWitnessPubKeyHash ''bc'' 0 (62 # replicate 19 0)) \<and>
   IsForNet (AddressWitnessPubKeyHash ''bc'' 0 (62 # replicate 19 0)) MainNetParams \<and>
   \<not> IsForNet (AddressWitnessPubKeyHash ''bc'' 0 (62 # replicate 19 0)) TestNet3Params \<and>
   keyToNp2wkhAddr (specLib toyPrims) (91, 0) =
     Inr (AddressScriptHash (replicate 19 0 @ [91]) 5) \<and>
   IsForNet (AddressScriptHash (replicate 19 0 @ [91]) 5) MainNetParams \<and>
   \<not> IsForNet (AddressScriptHash (replicate 19 0 @ [91]) 5) TestNet3Params"
proof -
  note a = mainnet_unconditional [of "specLib toyPrims" mainNetOnlyLib "(62, 0)" toyAezeed
      toyMnemonic "[]" toyPrims]
  note b = mainnet_unconditional [of "specLib toyPrims" mainNetOnlyLib "(91, 0)" toyAezeed
      toyMnemonic "[]" toyPrims]
  have test: "\<not> IsForNet (AddressWitnessPubKeyHash ''bc'' 0 (62 # replicate 19 0)) TestNet3Params"
    "\<not> IsForNet (AddressScriptHash (replicate 19 0 @ [91]) 5) TestNet3Params"
    by (simp_all add: IsForNet_def TestNet3Params_def)
  show ?thesis
    using a b mainNetOnlyLib_same toy_keyToP2wkhAddr toy_keyToNp2wkhAddr test
    by simp
qed

subsection \<open>The wrapped witness address\<close>








end
